theory Spec2Isabelle
  imports Main "HOL-Library.Sublist"
begin

section \<open>JavaScript strings and the regular expressions of the routes\<close>

text \<open>
  A JavaScript string is modelled as a \<^typ>\<open>string\<close>: one \<^typ>\<open>char\<close> per code unit,
  for the code units up to 0xFF. The white space of \<open>String.prototype.trim\<close> and of
  the regular-expression class \<open>\s\<close> in that range is TAB, LF, VT, FF, CR, SP and NBSP.
  A backslash is written \<open>CHR 0x5C\<close>.
\<close>

definition isWhiteSpace :: "char \<Rightarrow> bool" where
  "isWhiteSpace c =
     (c = CHR 0x09 \<or> c = CHR 0x0A \<or> c = CHR 0x0B \<or> c = CHR 0x0C \<or> c = CHR 0x0D \<or>
      c = CHR 0x20 \<or> c = CHR 0xA0)"

text \<open>\<open>s.trim()\<close>\<close>

definition trim :: "string \<Rightarrow> string" where
  "trim s = rev (dropWhile isWhiteSpace (rev (dropWhile isWhiteSpace s)))"

text \<open>\<open>s.includes(t)\<close>: \<open>t\<close> occurs in \<open>s\<close> at some index.\<close>

fun str_includes :: "string \<Rightarrow> string \<Rightarrow> bool" where
  "str_includes [] t = (t = [])"
| "str_includes (c # cs) t = (prefix t (c # cs) \<or> str_includes cs t)"

text \<open>
  \<open>re.test(s)\<close> for a regular expression without the \<open>^\<close> anchor: the matcher \<open>m\<close>
  (does the expression match at the start of this rest of the input?) is tried at every
  index from the left, the end of the input included.
\<close>

fun re_test :: "(string \<Rightarrow> bool) \<Rightarrow> string \<Rightarrow> bool" where
  "re_test m [] = m []"
| "re_test m (c # cs) = (m (c # cs) \<or> re_test m cs)"

text \<open>
  The \<open>i\<close> flag without the \<open>u\<close> flag compares the upper-case forms of two code units,
  and never lets a code unit from 0x80 on equal an ASCII one: against an ASCII pattern a
  code unit matches exactly when both agree after the ASCII letters are lowered.
\<close>

definition asciiLower :: "char \<Rightarrow> char" where
  "asciiLower c =
     (let n = (of_char c :: nat) in if 65 \<le> n \<and> n \<le> 90 then char_of (n + 32) else c)"

definition prefix_ci :: "string \<Rightarrow> string \<Rightarrow> bool" where
  "prefix_ci p s = prefix (map asciiLower p) (map asciiLower s)"

definition backslash :: char where
  "backslash = CHR 0x5C"

text \<open>\<open>/\\documentclass/.test(tex)\<close>\<close>

definition has_documentclass :: "string \<Rightarrow> bool" where
  "has_documentclass tex = re_test (prefix (backslash # ''documentclass'')) tex"

text \<open>
  \<open>stripCodeFences\<close> applies two replacements of the first match by the empty string.
  \<open>/^\s*```(?:latex|tex)?\s*/i\<close> matches at index 0 only: all the leading white space
  (a shorter run is followed by white space, not by a backquote), the three backquotes,
  \<open>latex\<close> before \<open>tex\<close> before nothing, and all the white space that follows.
\<close>

definition strip_leading_fence :: "string \<Rightarrow> string" where
  "strip_leading_fence s =
     (let r = dropWhile isWhiteSpace s in
      if prefix ''```'' r then
        (let r1 = drop 3 r;
             r2 = (if prefix_ci ''latex'' r1 then drop 5 r1
                   else if prefix_ci ''tex'' r1 then drop 3 r1
                   else r1)
         in dropWhile isWhiteSpace r2)
      else s)"

text \<open>
  \<open>/\s*```\s*$/i\<close> matches at the leftmost index from which the rest of the string is
  white space, three backquotes, white space, and nothing more.
\<close>

definition trailing_fence_at :: "string \<Rightarrow> bool" where
  "trailing_fence_at r =
     (let r1 = dropWhile isWhiteSpace r in
      prefix ''```'' r1 \<and> dropWhile isWhiteSpace (drop 3 r1) = [])"

fun strip_trailing_fence :: "string \<Rightarrow> string" where
  "strip_trailing_fence [] = []"
| "strip_trailing_fence (c # cs) =
     (if trailing_fence_at (c # cs) then [] else c # strip_trailing_fence cs)"

definition stripCodeFences :: "string \<Rightarrow> string" where
  "stripCodeFences s = strip_trailing_fence (strip_leading_fence s)"

section \<open>The per-IP rate limiter of the routes\<close>

text \<open>
  \<open>const ip = (req.headers.get("x-forwarded-for") || "").split(",")[0]?.trim() || "unknown"\<close>
\<close>

definition client_ip :: "string option \<Rightarrow> string" where
  "client_ip hdr =
     (let h = (case hdr of None \<Rightarrow> [] | Some s \<Rightarrow> s);
          t = trim (takeWhile (\<lambda>c. c \<noteq> CHR '','') h)
      in if t = [] then ''unknown'' else t)"

text \<open>
  The limiter map holds \<open>{count, resetAt}\<close> per IP. The entry is created when absent,
  reset when its window has passed, incremented and stored; the result says whether the
  count is now over the maximum.
\<close>

type_synonym rate_map = "string \<rightharpoonup> nat \<times> nat"

definition rate_limit :: "nat \<Rightarrow> nat \<Rightarrow> rate_map \<Rightarrow> string \<Rightarrow> nat \<Rightarrow> rate_map \<times> bool" where
  "rate_limit window maxreq m ip now =
     (let ent = (case m ip of None \<Rightarrow> (0, now + window) | Some e \<Rightarrow> e);
          ent1 = (if now > snd ent then (0, now + window) else ent);
          ent2 = (fst ent1 + 1, snd ent1)
      in (m(ip \<mapsto> ent2), fst ent2 > maxreq))"

section \<open>The tailoring route\<close>

definition TAILOR_RATE_WINDOW_MS :: nat where
  "TAILOR_RATE_WINDOW_MS = 60000"

definition TAILOR_RATE_MAX :: nat where
  "TAILOR_RATE_MAX = 20"

record Body =
  jd :: "string option"
  apiKey :: "string option"
  baseTex :: "string option"
  model :: "string option"

text \<open>
  A request: the outcome of line 20, which reads \<open>req.json()\<close> and takes the fields of
  the body (\<open>Inl\<close> the message of the exception when the body is not JSON or is
  \<open>null\<close>), and the \<open>x-forwarded-for\<close> header.
\<close>

record tailor_request =
  json_body :: "string + Body"
  forwarded_for :: "string option"

text \<open>
  What one call of the SDK's \<open>generateContent\<close> does: it returns a response whose
  \<open>text\<close> may be undefined, or throws an \<open>ApiError\<close> with a status, or throws
  something else.
\<close>

datatype sdk_outcome = SdkText "string option" | SdkApiError nat | SdkOtherError

text \<open>
  What the \<open>fetch\<close> of \<open>rawGenerateV1\<close> does: it throws, or it answers with a status
  and a body that fails to parse as JSON, or with a status and the JSON's
  \<open>candidates[0].content.parts\<close> (when that path exists), each part with its \<open>text\<close>
  (when it has one).
\<close>

datatype raw_outcome =
  RawFetchThrows
| RawBadJson nat
| RawJson nat "string option list option"

text \<open>
  The surroundings of one request: the clock, the process environment, the outcome of
  reading \<open>public/base.tex\<close>, and the two upstream services. The services answer the
  \<open>n\<close>-th call of the request for a model identifier.
\<close>

record tailor_env =
  clock :: nat
  GEMINI_API_KEY :: "string option"
  GEMINI_MODEL :: "string option"
  base_file :: "string + string"
  sdk :: "nat \<Rightarrow> string \<Rightarrow> sdk_outcome"
  raw_http :: "nat \<Rightarrow> string \<Rightarrow> raw_outcome"

datatype event = ReadBaseFile | SdkCall string | Sleep nat | RawCall string

datatype json =
  ErrorJson string
| TriedJson string "string list"
| TexJson string

datatype response = JsonResponse (status: nat) (payload: json)

record tailor_result =
  reply :: response
  rate_after :: rate_map
  events :: "event list"

text \<open>JavaScript truthiness of an optional string, and \<open>a || b\<close>.\<close>

definition truthy :: "string option \<Rightarrow> bool" where
  "truthy x = (case x of None \<Rightarrow> False | Some s \<Rightarrow> s \<noteq> [])"

definition or_else :: "string option \<Rightarrow> string option \<Rightarrow> string option" where
  "or_else a b = (if truthy a then a else b)"

definition staticModels :: "string list" where
  "staticModels =
     [''gemini-1.5-flash-latest'', ''gemini-1.5-flash'', ''gemini-1.5-pro-latest'',
      ''gemini-1.5-pro'', ''gemini-1.5-flash-8b'', ''gemini-pro'', ''gemini-1.0-pro'',
      ''gemini-1.0-pro-latest'', ''gemini-2.0-flash-001'', ''gemini-2.0-pro-001'']"

definition keep_model :: "string option \<Rightarrow> string option" where
  "keep_model m =
     (case m of
        None \<Rightarrow> None
      | Some s \<Rightarrow>
          if s \<noteq> [] \<and> \<not> str_includes s ''embedding'' \<and> \<not> str_includes s ''gecko''
          then Some s else None)"

definition validModels :: "string option \<Rightarrow> string option \<Rightarrow> string list" where
  "validModels requestedModel envModel =
     List.map_filter keep_model ([requestedModel, envModel] @ map Some staticModels)"

text \<open>
  \<open>generateWithRetry(model, maxRetries = 3)\<close>, from iteration \<open>i\<close> of its loop on, with
  \<open>k\<close> SDK calls made before. It returns what the function returns (\<open>resp.text\<close>, or
  the empty string after the loop), the events and the new call count.
\<close>

function generateWithRetry ::
  "tailor_env \<Rightarrow> string \<Rightarrow> nat \<Rightarrow> nat \<Rightarrow> nat \<Rightarrow> string option \<times> event list \<times> nat" where
  "generateWithRetry env name maxRetries i k =
     (if i < maxRetries then
        (case sdk env k name of
           SdkText t \<Rightarrow> (t, [SdkCall name], Suc k)
         | SdkApiError st \<Rightarrow>
             if st = 429 then
               (let delay = 2 ^ i * 1000;
                    (r, ev, k') = generateWithRetry env name maxRetries (Suc i) (Suc k)
                in (r, SdkCall name # Sleep delay # ev, k'))
             else (Some [], [SdkCall name], Suc k)
         | SdkOtherError \<Rightarrow> (Some [], [SdkCall name], Suc k))
      else (Some [], [], k))"
  by pat_completeness auto
termination
  by (relation "measure (\<lambda>(env, name, maxRetries, i, k). maxRetries - i)") auto

definition blank :: "string \<Rightarrow> bool" where
  "blank t = (t = [] \<or> trim t = [])"

text \<open>\<open>r || ""\<close>\<close>

definition text_or_empty :: "string option \<Rightarrow> string" where
  "text_or_empty r = (case r of None \<Rightarrow> [] | Some t \<Rightarrow> t)"

text \<open>
  The loop over \<open>validModels\<close> through the SDK: \<open>tex\<close> is assigned at every candidate,
  and the loop breaks at the first \<open>tex && tex.trim()\<close>.
\<close>

fun sdk_loop :: "tailor_env \<Rightarrow> string \<Rightarrow> nat \<Rightarrow> string list \<Rightarrow> string \<times> event list \<times> nat" where
  "sdk_loop env tex k [] = (tex, [], k)"
| "sdk_loop env tex k (name # rest) =
     (if name = [] then sdk_loop env tex k rest
      else
        (let (r, ev, k') = generateWithRetry env name 3 0 k;
             tex' = text_or_empty r
         in if \<not> blank tex' then (tex', ev, k')
            else (let (t, ev', k'') = sdk_loop env tex' k' rest in (t, ev @ ev', k''))))"

text \<open>
  \<open>rawGenerateV1\<close>: \<open>Inl\<close> when it throws (the fetch fails, the status is not ok, the
  body is not JSON), else the texts of the parts joined by newlines, or the first
  part's text, or the empty string.
\<close>

definition resp_ok :: "nat \<Rightarrow> bool" where
  "resp_ok st = (200 \<le> st \<and> st \<le> 299)"

fun join_lines :: "string list \<Rightarrow> string" where
  "join_lines [] = []"
| "join_lines [x] = x"
| "join_lines (x # y # ys) = x @ CHR 0x0A # join_lines (y # ys)"

definition rawGenerateV1 :: "tailor_env \<Rightarrow> nat \<Rightarrow> string \<Rightarrow> unit + string" where
  "rawGenerateV1 env k name =
     (case raw_http env k name of
        RawFetchThrows \<Rightarrow> Inl ()
      | RawBadJson st \<Rightarrow> Inl ()
      | RawJson st parts \<Rightarrow>
          if \<not> resp_ok st then Inl ()
          else
            (case parts of
               None \<Rightarrow> Inr []
             | Some ps \<Rightarrow>
                 (let joined = join_lines (List.map_filter (\<lambda>p. if truthy p then p else None) ps)
                  in if joined \<noteq> [] then Inr joined
                     else (case ps of
                             Some t # _ \<Rightarrow> Inr t
                           | _ \<Rightarrow> Inr []))))"

text \<open>
  The fallback loop over \<open>validModels\<close>, inside one \<open>try\<close>: an exception of
  \<open>rawGenerateV1\<close> ends the whole loop and leaves \<open>tex\<close> as it was.
\<close>

fun raw_loop :: "tailor_env \<Rightarrow> string \<Rightarrow> nat \<Rightarrow> string list \<Rightarrow> string \<times> event list" where
  "raw_loop env tex k [] = (tex, [])"
| "raw_loop env tex k (name # rest) =
     (if name = [] then raw_loop env tex k rest
      else
        (case rawGenerateV1 env k name of
           Inl _ \<Rightarrow> (tex, [RawCall name])
         | Inr r \<Rightarrow>
             if \<not> blank r then (r, [RawCall name])
             else (let (t, ev) = raw_loop env tex (Suc k) rest in (t, RawCall name # ev))))"

text \<open>
  The generation stage of the handler: the SDK loop, then the fallback loop when the
  text is still blank. \<open>None\<close> when the text is blank after both.
\<close>

definition generate :: "tailor_env \<Rightarrow> string list \<Rightarrow> string option \<times> event list" where
  "generate env models =
     (let (tex, ev, k) = sdk_loop env [] 0 models in
      if blank tex then
        (let (tex', ev') = raw_loop env tex 0 models in
         if blank tex' then (None, ev @ ev') else (Some tex', ev @ ev'))
      else (Some tex, ev))"

text \<open>The end of the handler: the fences are stripped and the document class is looked for.\<close>

definition finish :: "string \<Rightarrow> string \<Rightarrow> response" where
  "finish base tex =
     (let t = trim (stripCodeFences tex) in
      if \<not> has_documentclass t then JsonResponse 200 (TexJson base)
      else JsonResponse 200 (TexJson t))"

definition internal_error :: "string \<Rightarrow> response" where
  "internal_error msg = JsonResponse 500 (ErrorJson (if msg = [] then ''Internal error'' else msg))"

text \<open>\<open>let base = baseTex; if (!base) base = await fs.readFile(filePath, "utf8")\<close>\<close>

definition jd_text :: "Body \<Rightarrow> string" where
  "jd_text b = (case jd b of None \<Rightarrow> [] | Some s \<Rightarrow> s)"

definition resolve_base :: "tailor_env \<Rightarrow> Body \<Rightarrow> (string + string) \<times> event list" where
  "resolve_base env b =
     (if truthy (baseTex b) then (Inr (case baseTex b of None \<Rightarrow> [] | Some s \<Rightarrow> s), [])
      else (base_file env, [ReadBaseFile]))"

text \<open>
  The handler \<open>POST\<close> of the tailoring route, in two parts. The first runs up to the
  end of the generation: \<open>Inl\<close> is a reply given there, \<open>Inr\<close> carries the resolved
  base and the generated text on. The exceptions that reach the outer \<open>catch\<close> are
  those of \<open>req.json()\<close> and of \<open>fs.readFile\<close> (the logging is left out).
\<close>

definition tailor_upstream ::
  "tailor_env \<Rightarrow> rate_map \<Rightarrow> tailor_request \<Rightarrow>
     tailor_result + (string \<times> string \<times> rate_map \<times> event list)" where
  "tailor_upstream env rates req =
     (case json_body req of
        Inl msg \<Rightarrow> Inl \<lparr>reply = internal_error msg, rate_after = rates, events = []\<rparr>
      | Inr b \<Rightarrow>
          (let (rates', limited) =
                 rate_limit TAILOR_RATE_WINDOW_MS TAILOR_RATE_MAX rates
                   (client_ip (forwarded_for req)) (clock env)
           in
           if limited then
             Inl \<lparr>reply = JsonResponse 429 (ErrorJson ''Too many requests''),
                  rate_after = rates', events = []\<rparr>
           else if \<not> truthy (jd b) \<or> length (trim (jd_text b)) < 16 then
             Inl \<lparr>reply = JsonResponse 400
                     (ErrorJson ''JD is required and should be at least 16 characters''),
                  rate_after = rates', events = []\<rparr>
           else if \<not> truthy (or_else (apiKey b) (GEMINI_API_KEY env)) then
             Inl \<lparr>reply = JsonResponse 400
                     (ErrorJson ''Missing GEMINI_API_KEY (set env or pass apiKey)''),
                  rate_after = rates', events = []\<rparr>
           else
             (case resolve_base env b of
                (Inl msg, ev0) \<Rightarrow>
                  Inl \<lparr>reply = internal_error msg, rate_after = rates', events = ev0\<rparr>
              | (Inr base, ev0) \<Rightarrow>
                  (let models = validModels (model b) (GEMINI_MODEL env) in
                   case generate env models of
                     (None, ev) \<Rightarrow>
                       Inl \<lparr>reply = JsonResponse 502
                              (TriedJson ''Gemini API call failed. Try a different model.'' models),
                            rate_after = rates', events = ev0 @ ev\<rparr>
                   | (Some tex, ev) \<Rightarrow> Inr (base, tex, rates', ev0 @ ev)))))"

definition tailor_POST :: "tailor_env \<Rightarrow> rate_map \<Rightarrow> tailor_request \<Rightarrow> tailor_result" where
  "tailor_POST env rates req =
     (case tailor_upstream env rates req of
        Inl r \<Rightarrow> r
      | Inr (base, tex, rates', ev) \<Rightarrow>
          \<lparr>reply = finish base tex, rate_after = rates', events = ev\<rparr>)"


section \<open>Predicates and inputs of the statements on the tailoring route\<close>

text \<open>
  The requests that an IP has used up in the running window, as the limiter reads its
  map at the time \<open>now\<close>.
\<close>

definition used_before :: "rate_map \<Rightarrow> string \<Rightarrow> nat \<Rightarrow> nat" where
  "used_before rates ip now =
     (case rates ip of None \<Rightarrow> 0 | Some (c, r) \<Rightarrow> if now > r then 0 else c)"

text \<open>An upstream outcome that gives the handler no text: blank text, or an error.\<close>

fun sdk_blank :: "sdk_outcome \<Rightarrow> bool" where
  "sdk_blank (SdkText t) = blank (text_or_empty t)"
| "sdk_blank _ = True"

fun raw_blank :: "unit + string \<Rightarrow> bool" where
  "raw_blank (Inl _) = True"
| "raw_blank (Inr t) = blank t"

definition article :: string where
  "article = backslash # ''documentclass{article}''"

definition body_ok :: Body where
  "body_ok =
     \<lparr>jd = Some ''Backend engineer role requiring Kubernetes and Go experience'',
      apiKey = Some ''key'', baseTex = Some article, model = None\<rparr>"

definition request_ok :: tailor_request where
  "request_ok = \<lparr>json_body = Inr body_ok, forwarded_for = Some ''10.0.0.7, 10.0.0.1''\<rparr>"

text \<open>The model answers with a fenced letter that has no document class.\<close>

definition letter :: string where
  "letter = ''```latex'' @ CHR 0x0A # ''Dear Sir,'' @ CHR 0x0A # ''```''"

definition env_letter :: tailor_env where
  "env_letter =
     \<lparr>clock = 1000, GEMINI_API_KEY = None, GEMINI_MODEL = None, base_file = Inl ''ENOENT'',
      sdk = (\<lambda>k m. SdkText (Some letter)), raw_http = (\<lambda>k m. RawFetchThrows)\<rparr>"

text \<open>Every model answers with the empty text, on both paths.\<close>

definition env_silent :: tailor_env where
  "env_silent =
     \<lparr>clock = 1000, GEMINI_API_KEY = None, GEMINI_MODEL = None, base_file = Inl ''ENOENT'',
      sdk = (\<lambda>k m. SdkText (Some [])), raw_http = (\<lambda>k m. RawJson 200 (Some [Some []]))\<rparr>"

definition request_gemini_pro :: tailor_request where
  "request_gemini_pro =
     \<lparr>json_body = Inr (body_ok\<lparr>model := Some ''gemini-pro''\<rparr>), forwarded_for = None\<rparr>"

text \<open>The first call answers with one space, every later call with a document.\<close>

definition env_space_first :: tailor_env where
  "env_space_first =
     \<lparr>clock = 1000, GEMINI_API_KEY = None, GEMINI_MODEL = None, base_file = Inl ''ENOENT'',
      sdk = (\<lambda>k m. if k = 0 then SdkText (Some '' '') else SdkText (Some article)),
      raw_http = (\<lambda>k m. RawFetchThrows)\<rparr>"

text \<open>Every call answers with one space, on both paths.\<close>

definition env_space_always :: tailor_env where
  "env_space_always =
     \<lparr>clock = 1000, GEMINI_API_KEY = None, GEMINI_MODEL = None, base_file = Inl ''ENOENT'',
      sdk = (\<lambda>k m. SdkText (Some '' '')), raw_http = (\<lambda>k m. RawJson 200 (Some [Some '' '']))\<rparr>"



text \<open>The first model is rate limited at every call, the others answer with a document.\<close>

definition env_busy_first :: tailor_env where
  "env_busy_first =
     \<lparr>clock = 1000, GEMINI_API_KEY = None, GEMINI_MODEL = None, base_file = Inl ''ENOENT'',
      sdk = (\<lambda>k m. if m = ''gemini-1.5-flash-latest'' then SdkApiError 429
                     else SdkText (Some article)),
      raw_http = (\<lambda>k m. RawFetchThrows)\<rparr>"

text \<open>A request without a job description, and one whose body is not JSON.\<close>

definition body_no_jd :: Body where
  "body_no_jd = \<lparr>jd = None, apiKey = None, baseTex = None, model = None\<rparr>"

definition request_no_jd :: tailor_request where
  "request_no_jd = \<lparr>json_body = Inr body_no_jd, forwarded_for = Some ''10.0.0.7''\<rparr>"

definition request_not_json :: tailor_request where
  "request_not_json =
     \<lparr>json_body = Inl ''Unexpected end of JSON input'', forwarded_for = Some ''10.0.0.7''\<rparr>"

text \<open>The limiter after twenty requests of 10.0.0.7 in the running window.\<close>

definition rates_used_up :: rate_map where
  "rates_used_up = [''10.0.0.7'' \<mapsto> (20, 50000)]"


section \<open>Engine inference and the PDF signature\<close>

datatype engine = Pdflatex | Xelatex | Lualatex

fun engine_name :: "engine \<Rightarrow> string" where
  "engine_name Pdflatex = ''pdflatex''"
| "engine_name Xelatex = ''xelatex''"
| "engine_name Lualatex = ''lualatex''"

text \<open>The class \<open>\w\<close>, which decides the assertion \<open>\b\<close>: ASCII letters, digits, underscore.\<close>

definition isWordChar :: "char \<Rightarrow> bool" where
  "isWordChar c =
     (let n = (of_char c :: nat) in
      (48 \<le> n \<and> n \<le> 57) \<or> (65 \<le> n \<and> n \<le> 90) \<or> n = 95 \<or> (97 \<le> n \<and> n \<le> 122))"

text \<open>
  \<open>\b\<close> after a word that ends in a letter holds when no word character follows (the
  end of the input included).
\<close>

definition word_char_next :: "string \<Rightarrow> bool" where
  "word_char_next r = (case r of [] \<Rightarrow> False | c # _ \<Rightarrow> isWordChar c)"

text \<open>\<open>/\\directlua\b/i\<close> at the start of \<open>s\<close>\<close>

definition directlua_at :: "string \<Rightarrow> bool" where
  "directlua_at s =
     (prefix_ci (backslash # ''directlua'') s \<and> \<not> word_char_next (drop 10 s))"

text \<open>
  \<open>/\\usepackage\{\s*fontspec\s*\}|\\setmainfont\b|polyglossia|xeCJK/i\<close> at the start
  of \<open>s\<close>: one matcher per alternative.
\<close>

definition usepackage_fontspec_at :: "string \<Rightarrow> bool" where
  "usepackage_fontspec_at s =
     (prefix_ci (backslash # ''usepackage{'') s \<and>
      (let r = dropWhile isWhiteSpace (drop 12 s) in
       prefix_ci ''fontspec'' r \<and> prefix ''}'' (dropWhile isWhiteSpace (drop 8 r))))"

definition setmainfont_at :: "string \<Rightarrow> bool" where
  "setmainfont_at s =
     (prefix_ci (backslash # ''setmainfont'') s \<and> \<not> word_char_next (drop 12 s))"

definition font_directive_at :: "string \<Rightarrow> bool" where
  "font_directive_at s =
     (usepackage_fontspec_at s \<or> setmainfont_at s \<or> prefix_ci ''polyglossia'' s \<or>
      prefix_ci ''xeCJK'' s)"

definition inferEngine :: "string \<Rightarrow> engine" where
  "inferEngine tex =
     (if re_test directlua_at tex then Lualatex
      else if re_test font_directive_at tex then Xelatex
      else Pdflatex)"

text \<open>
  The classification of a response of the compilation service, written out at each of
  the five places that read one. A body is a list of bytes; the ASCII decoder gives
  \<open>%PDF\<close> for the four bytes 0x25 0x50 0x44 0x46 only.
\<close>

definition isPdfHeader :: "string \<Rightarrow> bool" where
  "isPdfHeader buf = (length buf > 4 \<and> take 4 buf = ''%PDF'')"

text \<open>\<open>/pdf/i.test(resp.headers.get("content-type") || "")\<close>\<close>

definition isPdfType :: "string option \<Rightarrow> bool" where
  "isPdfType ct = re_test (prefix_ci ''pdf'') (case ct of None \<Rightarrow> [] | Some c \<Rightarrow> c)"

definition pdf_success :: "nat \<Rightarrow> string option \<Rightarrow> string \<Rightarrow> bool" where
  "pdf_success st ct buf = (resp_ok st \<and> (isPdfType ct \<or> isPdfHeader buf))"

section \<open>The file system of the compile routes\<close>

text \<open>
  A path is the list of its segments from the root; the file system lists the paths
  that exist, each a directory or a file with its bytes. The operations fail as
  Node's do, with the error code as message.
\<close>

type_synonym path = "string list"

datatype node = Dir | File string

type_synonym filesystem = "(path \<times> node) list"

definition is_dir :: "filesystem \<Rightarrow> path \<Rightarrow> bool" where
  "is_dir fs p = (map_of fs p = Some Dir)"

definition fs_remove :: "filesystem \<Rightarrow> path \<Rightarrow> filesystem" where
  "fs_remove fs p = filter (\<lambda>e. fst e \<noteq> p) fs"

definition mkdir :: "filesystem \<Rightarrow> path \<Rightarrow> string + filesystem" where
  "mkdir fs p =
     (if map_of fs p \<noteq> None then Inl ''EEXIST''
      else if \<not> is_dir fs (butlast p) then Inl ''ENOENT''
      else Inr (fs @ [(p, Dir)]))"

text \<open>A path with a NUL code unit is refused before the disk is touched.\<close>

definition writeFile :: "filesystem \<Rightarrow> path \<Rightarrow> string \<Rightarrow> string + filesystem" where
  "writeFile fs p bytes =
     (if list_ex (\<lambda>seg. CHR 0x00 \<in> set seg) p then Inl ''ERR_INVALID_ARG_VALUE''
      else if is_dir fs p then Inl ''EISDIR''
      else if \<not> is_dir fs (butlast p) then Inl ''ENOENT''
      else Inr (fs_remove fs p @ [(p, File bytes)]))"

definition readFile :: "filesystem \<Rightarrow> path \<Rightarrow> string + string" where
  "readFile fs p =
     (case map_of fs p of
        None \<Rightarrow> Inl ''ENOENT''
      | Some Dir \<Rightarrow> Inl ''EISDIR''
      | Some (File bytes) \<Rightarrow> Inr bytes)"

definition copyFile :: "filesystem \<Rightarrow> path \<Rightarrow> path \<Rightarrow> string + filesystem" where
  "copyFile fs src dst =
     (case readFile fs src of Inl e \<Rightarrow> Inl e | Inr bytes \<Rightarrow> writeFile fs dst bytes)"

text \<open>\<open>fs.rmSync(p, { recursive: true, force: true })\<close>\<close>

definition rm_rf :: "filesystem \<Rightarrow> path \<Rightarrow> filesystem" where
  "rm_rf fs p = filter (\<lambda>e. \<not> prefix p (fst e)) fs"

text \<open>
  \<open>path.join(dir, name)\<close> for a normalised absolute \<open>dir\<close>: the name is split at the
  slashes, empty and \<open>.\<close> segments drop out, \<open>..\<close> leaves the directory it is in (the
  root stays the root).
\<close>

fun split_on :: "char \<Rightarrow> string \<Rightarrow> string list" where
  "split_on c [] = [[]]"
| "split_on c (x # xs) =
     (if x = c then [] # split_on c xs
      else (case split_on c xs of [] \<Rightarrow> [[x]] | h # t \<Rightarrow> (x # h) # t))"

fun normalize :: "path \<Rightarrow> string list \<Rightarrow> path" where
  "normalize acc [] = rev acc"
| "normalize acc (s # ss) =
     (if s = [] \<or> s = ''.'' then normalize acc ss
      else if s = ''..'' then normalize (tl acc) ss
      else normalize (s # acc) ss)"

definition path_join :: "path \<Rightarrow> string \<Rightarrow> path" where
  "path_join dir name = normalize (rev dir) (split_on CHR ''/'' name)"

text \<open>\<open>path.basename(name)\<close> and \<open>path.extname(name)\<close>\<close>

definition basename :: "string \<Rightarrow> string" where
  "basename name =
     (let segs = filter (\<lambda>s. s \<noteq> []) (split_on CHR ''/'' name)
      in if segs = [] then [] else last segs)"

definition extname :: "string \<Rightarrow> string" where
  "extname name =
     (let b = basename name; e = takeWhile (\<lambda>c. c \<noteq> CHR ''.'') (rev b) in
      if CHR ''.'' \<notin> set b \<or> length e + 1 = length b then []
      else CHR ''.'' # rev e)"

definition path_string :: "path \<Rightarrow> string" where
  "path_string p = concat (map (\<lambda>s. CHR ''/'' # s) p)"

section \<open>The surroundings of the compile routes\<close>

text \<open>
  What a \<open>fetch\<close> and the reading of its body do: they throw (a network error, the
  abort of the timeout), or there is a response with its status, its content type and
  its body.
\<close>

datatype fetch_result = FetchThrows string | FetchResponse nat "string option" string

text \<open>
  The compilation service answers a direct POST and a direct GET per engine, and the
  \<open>n\<close>-th upload of an archive; the package mirror answers per package name. \<open>tar\<close>
  packs the named members of a directory, or fails. The temporary directory is the
  name that \<open>mkdtempSync\<close> makes up, and the UTF-8 decoder is taken as it is. The
  platform's \<open>FormData\<close> and \<open>Headers\<close> throw a \<open>TypeError\<close> where their
  specifications say so; the messages of these errors are taken as they are (that of
  \<open>Headers\<close> for the value it refuses).
\<close>

record compile_env =
  now :: nat
  MAX_UPLOAD_BYTES_env :: "nat option"
  compile_post :: "engine \<Rightarrow> fetch_result"
  compile_get :: "engine \<Rightarrow> fetch_result"
  data_post :: "nat \<Rightarrow> string \<Rightarrow> string \<Rightarrow> fetch_result"
  ctan_get :: "string \<Rightarrow> fetch_result"
  tar_bz2 :: "(string \<times> string) list \<Rightarrow> string option"
  mkdtemp :: path
  utf8_decode :: "string \<Rightarrow> string"
  append_error :: string
  header_error :: "string \<Rightarrow> string"

datatype attempt = Attempt string "nat option" string

datatype compile_response =
  Pdf string
| PlainText nat string
| FailedJson nat string "attempt list"
| ArchiveFile string string string

datatype compile_event = DataPost string string | MirrorGet string

text \<open>
  \<open>execSync(`tar -cjf ${tarPath} -C ${workdir} main.tex`)\<close>: the archive at \<open>tarPath\<close>
  gets the one member the command names.
\<close>

definition exec_tar :: "compile_env \<Rightarrow> filesystem \<Rightarrow> path \<Rightarrow> path \<Rightarrow> string + filesystem" where
  "exec_tar env fs tarPath workdir =
     (case readFile fs (workdir @ [''main.tex'']) of
        Inl e \<Rightarrow> Inl e
      | Inr bytes \<Rightarrow>
          (case tar_bz2 env [(''main.tex'', bytes)] of
             None \<Rightarrow> Inl ''Command failed''
           | Some archive \<Rightarrow> writeFile fs tarPath archive))"

text \<open>\<open>e?.message || String(e)\<close> for a \<open>TypeError\<close> with the message \<open>msg\<close>\<close>

definition error_text :: "string \<Rightarrow> string" where
  "error_text msg = (if msg = [] then ''TypeError'' else msg)"

definition safeText :: "compile_env \<Rightarrow> string \<Rightarrow> string" where
  "safeText env buf = take 8000 (utf8_decode env buf)"


section \<open>The compile route for a text body\<close>

record CompileBody =
  body_tex :: "string option"
  body_engine :: "engine option"

text \<open>
  One direct attempt (the POST, or the GET that follows it): a PDF is returned at once,
  anything else is appended to \<open>tried\<close>.
\<close>

definition direct_attempt ::
  "compile_env \<Rightarrow> engine \<Rightarrow> fetch_result \<Rightarrow> attempt list \<Rightarrow> compile_response + attempt list" where
  "direct_attempt env eng r tried =
     (case r of
        FetchThrows msg \<Rightarrow> Inr (tried @ [Attempt (engine_name eng) None msg])
      | FetchResponse st ct buf \<Rightarrow>
          if pdf_success st ct buf then Inl (Pdf buf)
          else Inr (tried @
                 [Attempt (engine_name eng) (Some st)
                    (if isPdfType ct \<or> isPdfHeader buf then ''unexpected non-ok while PDF-like''
                     else safeText env buf)]))"

fun direct_loop ::
  "compile_env \<Rightarrow> attempt list \<Rightarrow> engine list \<Rightarrow> compile_response + attempt list" where
  "direct_loop env tried [] = Inr tried"
| "direct_loop env tried (eng # rest) =
     (case direct_attempt env eng (compile_post env eng) tried of
        Inl r \<Rightarrow> Inl r
      | Inr tried1 \<Rightarrow>
          (case direct_attempt env eng (compile_get env eng) tried1 of
             Inl r \<Rightarrow> Inl r
           | Inr tried2 \<Rightarrow> direct_loop env tried2 rest))"

text \<open>\<open>xs.filter((v, i, a) => a.indexOf(v) === i)\<close>, and the order of a \<open>Set\<close>\<close>

fun first_occurrences :: "'a list \<Rightarrow> 'a list \<Rightarrow> 'a list" where
  "first_occurrences seen [] = []"
| "first_occurrences seen (x # xs) =
     (if x \<in> set seen then first_occurrences seen xs
      else x # first_occurrences (seen @ [x]) xs)"

definition trial_engines :: "CompileBody \<Rightarrow> string \<Rightarrow> engine list" where
  "trial_engines b tex =
     first_occurrences []
       [(case body_engine b of Some e \<Rightarrow> e | None \<Rightarrow> inferEngine tex),
        Xelatex, Lualatex, Pdflatex]"

text \<open>
  The reply of lines 201 to 204. Its \<open>hint\<close> is empty: the handler is past the check
  for \<open>\documentclass\<close>.
\<close>

definition failed_across :: "attempt list \<Rightarrow> compile_response" where
  "failed_across tried = FailedJson 502 ''Compilation failed across engines.'' tried"

text \<open>
  The archive fallback of the text route, lines 135 to 205: every exception inside goes
  to the \<open>catch\<close> that answers 502 and removes nothing. Line 153 appends a read
  stream under a file name, \<open>form.append("file", stream, "archive.tar.bz2")\<close>; with a
  file name the platform's \<open>FormData\<close> accepts a \<open>Blob\<close> only and throws a
  \<open>TypeError\<close>. So the upload, the \<open>Cleanup files\<close> block and the replies of lines
  155 to 197 are never reached.
\<close>

definition archive_fallback ::
  "compile_env \<Rightarrow> filesystem \<Rightarrow> string \<Rightarrow> attempt list \<Rightarrow> compile_response \<times> filesystem" where
  "archive_fallback env fs tex tried =
     (let tmp = mkdtemp env; texPath = tmp @ [''main.tex''];
          tarPath = tmp @ [''archive.tar.bz2'']
      in
      case mkdir fs tmp of
        Inl e \<Rightarrow> (failed_across (tried @ [Attempt ''tar-bz2'' None e]), fs)
      | Inr fs1 \<Rightarrow>
          (case writeFile fs1 texPath tex of
             Inl e \<Rightarrow> (failed_across (tried @ [Attempt ''tar-bz2'' None e]), fs1)
           | Inr fs2 \<Rightarrow>
               (case exec_tar env fs2 tarPath tmp of
                  Inl e \<Rightarrow>
                    (failed_across
                       (tried @ [Attempt ''tar-bz2'' None (''tar creation failed: '' @ e)]), fs2)
                | Inr fs3 \<Rightarrow>
                    (failed_across
                       (tried @ [Attempt ''tar-bz2'' None (error_text (append_error env))]),
                     fs3))))"

text \<open>
  The handler \<open>POST\<close> of the text route: the reply, and the file system it leaves.
\<close>

definition compile_POST ::
  "compile_env \<Rightarrow> filesystem \<Rightarrow> string + CompileBody \<Rightarrow> compile_response \<times> filesystem" where
  "compile_POST env fs body =
     (case body of
        Inl msg \<Rightarrow> (PlainText 500 (if msg = [] then ''Internal error'' else msg), fs)
      | Inr b \<Rightarrow>
          if \<not> truthy (body_tex b) \<or> \<not> has_documentclass (text_or_empty (body_tex b)) then
            (PlainText 400 ''Invalid or missing LaTeX document'', fs)
          else
            (let tex = text_or_empty (body_tex b) in
             case direct_loop env [] (trial_engines b tex) of
               Inl r \<Rightarrow> (r, fs)
             | Inr tried \<Rightarrow> archive_fallback env fs tex tried))"

section \<open>The compile route for an uploaded file\<close>

definition RATE_LIMIT_WINDOW_MS :: nat where
  "RATE_LIMIT_WINDOW_MS = 60000"

definition RATE_LIMIT_MAX :: nat where
  "RATE_LIMIT_MAX = 30"

text \<open>\<open>Number(process.env.MAX_UPLOAD_BYTES) || 5 * 1024 * 1024\<close>\<close>

definition MAX_UPLOAD_BYTES :: "compile_env \<Rightarrow> nat" where
  "MAX_UPLOAD_BYTES env =
     (case MAX_UPLOAD_BYTES_env env of
        None \<Rightarrow> 5 * 1024 * 1024
      | Some n \<Rightarrow> if n = 0 then 5 * 1024 * 1024 else n)"

text \<open>
  The \<open>file\<close> field of the form is a string or a file with its name and bytes. A
  request carries the forwarded-for and content-type headers, the outcome of
  \<open>req.formData()\<close> (\<open>Inl\<close> when it rejects, else what \<open>form.get("file")\<close> gives) and the
  value of the query parameter \<open>onlyArchive\<close>.
\<close>

datatype form_value = FormString string | FormFile string string

record upload_request =
  up_forwarded_for :: "string option"
  up_content_type :: "string option"
  up_form :: "string + form_value option"
  up_onlyArchive :: "string option"

record upload_result =
  up_reply :: compile_response
  up_rates :: rate_map
  up_disk :: filesystem
  up_calls :: "compile_event list"

fun file_name :: "form_value \<Rightarrow> string" where
  "file_name (FormString _) = []"
| "file_name (FormFile name _) = name"

fun file_bytes :: "form_value \<Rightarrow> string" where
  "file_bytes (FormString s) = s"
| "file_bytes (FormFile _ bytes) = bytes"

text \<open>\<open>file.name || "upload"\<close>\<close>

definition name_or_upload :: "form_value \<Rightarrow> string" where
  "name_or_upload f = (if file_name f = [] then ''upload'' else file_name f)"

definition allowed :: "string list" where
  "allowed = [''.tex'', ''.tar'', ''.tar.bz2'', ''.tbz2'', ''.tar.bz'']"

text \<open>
  The checks of lines 41 to 63, after the rate limit: \<open>Inl\<close> the reply of the check
  that fails.
\<close>

definition validate_upload ::
  "compile_env \<Rightarrow> upload_request \<Rightarrow> compile_response + form_value" where
  "validate_upload env req =
     (if \<not> str_includes (text_or_empty (up_content_type req)) ''multipart/form-data'' then
        Inl (PlainText 400 ''Expected multipart/form-data'')
      else
        (case up_form req of
           Inl e \<Rightarrow> Inl (PlainText 500 ''Internal server error'')
         | Inr None \<Rightarrow> Inl (PlainText 400 ''Missing file field'')
         | Inr (Some f) \<Rightarrow>
             if f = FormString [] then Inl (PlainText 400 ''Missing file field'')
             else if \<not> list_ex (\<lambda>ext. suffix ext (map asciiLower (basename (name_or_upload f))))
                        allowed then
               Inl (PlainText 400 ''Unsupported file type'')
             else if (case f of FormString _ \<Rightarrow> False
                      | FormFile _ bytes \<Rightarrow> length bytes > MAX_UPLOAD_BYTES env) then
               Inl (PlainText 413 ''Uploaded file is too large'')
             else Inr f))"

text \<open>\<open>function cleanup() { try { fs.rmSync(tmp, ...) } catch {} }\<close>\<close>

definition cleanup :: "compile_env \<Rightarrow> filesystem \<Rightarrow> filesystem" where
  "cleanup env fs = rm_rf fs (mkdtemp env)"

text \<open>
  Lines 65 to 111: the upload is stored in a fresh directory, and a \<open>.tex\<close> upload is
  packed. \<open>Inl\<close> is a reply given there, with the file system left behind; \<open>Inr\<close>
  carries the archive path and the working directory on. An exception outside the
  inner \<open>try\<close> reaches the outer \<open>catch\<close>, which answers 500 and removes nothing. A
  write stream on a path that ends in a slash fails.
\<close>

definition prepare_archive ::
  "compile_env \<Rightarrow> filesystem \<Rightarrow> form_value \<Rightarrow>
     (compile_response \<times> filesystem) + (path \<times> path option \<times> filesystem)" where
  "prepare_archive env fs f =
     (let tmp = mkdtemp env in
      case mkdir fs tmp of
        Inl e \<Rightarrow> Inl (PlainText 500 ''Internal server error'', fs)
      | Inr fs1 \<Rightarrow>
          (let receivedPath = path_join tmp (name_or_upload f) in
           case (if suffix ''/'' (name_or_upload f) then Inl ''EISDIR''
                 else writeFile fs1 receivedPath (file_bytes f)) of
             Inl e \<Rightarrow> Inl (PlainText 500 ''Internal server error'', fs1)
           | Inr fs2 \<Rightarrow>
               if suffix ''.tex'' (map asciiLower (file_name f)) then
                 (let tarPath = tmp @ [''archive.tar.bz2'']; workdir = tmp @ [''work''] in
                  case mkdir fs2 workdir of
                    Inl e \<Rightarrow>
                      Inl (PlainText 500 (''Failed to create tarball: '' @ e), cleanup env fs2)
                  | Inr fs3 \<Rightarrow>
                      (case copyFile fs3 receivedPath (workdir @ [''main.tex'']) of
                         Inl e \<Rightarrow>
                           Inl (PlainText 500 (''Failed to create tarball: '' @ e),
                                cleanup env fs3)
                       | Inr fs4 \<Rightarrow>
                           (case exec_tar env fs4 tarPath workdir of
                              Inl e \<Rightarrow>
                                Inl (PlainText 500 (''Failed to create tarball: '' @ e),
                                     cleanup env fs4)
                            | Inr fs5 \<Rightarrow> Inr (tarPath, Some workdir, fs5))))
               else Inr (receivedPath, None, fs2)))"

text \<open>
  A header value is refused by the platform's \<open>Headers\<close> when it holds NUL, LF or CR
  (or a code unit above 0xFF, which a \<^typ>\<open>string\<close> never holds). The value built
  at line 130 starts with a letter and end with a quote, so the rule on leading and trailing
  blanks never applies.
\<close>

definition header_value_ok :: "string \<Rightarrow> bool" where
  "header_value_ok v = (CHR 0x00 \<notin> set v \<and> CHR 0x0A \<notin> set v \<and> CHR 0x0D \<notin> set v)"

text \<open>Line 130: the value of the \<open>Content-Disposition\<close> header.\<close>

definition content_disposition :: "string \<Rightarrow> string" where
  "content_disposition name = ''attachment; filename='' @ [CHR 0x22] @ name @ [CHR 0x22]"

text \<open>
  Lines 113 to 141: the reply of the archive-only mode. Inside the \<open>try\<close> stand the
  reading of the archive and the construction of the response, whose
  \<open>Content-Disposition\<close> header holds the base name of the archive path; an exception
  of either goes to the \<open>catch\<close>, which cleans up and answers 500.
\<close>

definition archive_only ::
  "compile_env \<Rightarrow> filesystem \<Rightarrow> path \<Rightarrow> compile_response \<times> filesystem" where
  "archive_only env fs archivePath =
     (case readFile fs archivePath of
        Inl e \<Rightarrow> (PlainText 500 (''Failed to read archive: '' @ e), cleanup env fs)
      | Inr fileBuf \<Rightarrow>
          (let ext = map asciiLower (extname (path_string archivePath));
               ct = (if str_includes ext ''.bz2'' \<or> str_includes ext ''.tbz''
                     then ''application/x-bzip2'' else ''application/x-tar'');
               name = basename (path_string archivePath)
           in if header_value_ok (content_disposition name)
              then (ArchiveFile ct name fileBuf, fs)
              else (PlainText 500
                      (''Failed to read archive: '' @
                       error_text (header_error env (content_disposition name))),
                    cleanup env fs)))"

text \<open>
  \<open>/File `([^']+)\.sty' not found/g\<close> at the start of \<open>s\<close>: the group is what stands
  between the backquote and \<open>.sty\<close> followed by the first quote, and is not empty.
  The result is the group and the length of the match.
\<close>

definition sty_match_at :: "string \<Rightarrow> (string \<times> nat) option" where
  "sty_match_at s =
     (if prefix ''File `'' s then
        (let r = drop 6 s;
             a = takeWhile (\<lambda>c. c \<noteq> CHR 0x27) r;
             b = dropWhile (\<lambda>c. c \<noteq> CHR 0x27) r
         in if suffix ''.sty'' a \<and> length a > 4 \<and> prefix (CHR 0x27 # '' not found'') b
            then Some (take (length a - 4) a, 6 + length a + 11)
            else None)
      else None)"

text \<open>\<open>text.matchAll(...)\<close>: the matches from the left, each search starting where the last match ended.\<close>

function missing_styles :: "string \<Rightarrow> string list" where
  "missing_styles [] = []"
| "missing_styles (c # cs) =
     (case sty_match_at (c # cs) of
        Some (name, len) \<Rightarrow> name # missing_styles (drop len (c # cs))
      | None \<Rightarrow> missing_styles cs)"
  by pat_completeness auto
termination
  by (relation "measure length") (auto simp: sty_match_at_def Let_def split: if_splits)

text \<open>
  The loop over the missing packages, lines 179 to 196: a package that the mirror
  serves is written into the working directory; any exception is ignored.
\<close>

fun fetch_missing ::
  "compile_env \<Rightarrow> filesystem \<Rightarrow> path \<Rightarrow> string list \<Rightarrow> filesystem \<times> bool \<times> compile_event list" where
  "fetch_missing env fs workdir [] = (fs, False, [])"
| "fetch_missing env fs workdir (sty # rest) =
     (let (fs1, got) =
            (case ctan_get env sty of
               FetchThrows _ \<Rightarrow> (fs, False)
             | FetchResponse st ct content \<Rightarrow>
                 if resp_ok st then
                   (case writeFile fs (path_join workdir (sty @ ''.sty'')) content of
                      Inl _ \<Rightarrow> (fs, False)
                    | Inr fs' \<Rightarrow> (fs', True))
                 else (fs, False));
          (fs2, fetchedAny, ev) = fetch_missing env fs1 workdir rest
      in (fs2, got \<or> fetchedAny, MirrorGet sty # ev))"

text \<open>
  The retry, lines 199 to 232, inside \<open>try { ... } catch {}\<close>: \<open>Inl\<close> is the PDF reply
  of the retry, \<open>Inr\<close> the body to go on with.
\<close>

definition retry_upload ::
  "compile_env \<Rightarrow> filesystem \<Rightarrow> path \<Rightarrow> string \<Rightarrow>
     ((compile_response \<times> filesystem) + (string \<times> filesystem)) \<times> compile_event list" where
  "retry_upload env fs workdir buf =
     (let tarPath2 = mkdtemp env @ [''archive_retry.tar.bz2''] in
      case exec_tar env fs tarPath2 workdir of
        Inl _ \<Rightarrow> (Inr (buf, fs), [])
      | Inr fs1 \<Rightarrow>
          (case readFile fs1 tarPath2 of
             Inl _ \<Rightarrow> (Inr (buf, fs1), [])
           | Inr fileBuf2 \<Rightarrow>
               (case data_post env 1 ''archive_retry.tar.bz2'' fileBuf2 of
                  FetchThrows _ \<Rightarrow>
                    (Inr (buf, fs1), [DataPost ''archive_retry.tar.bz2'' fileBuf2])
                | FetchResponse st2 ct2 buf2 \<Rightarrow>
                    if pdf_success st2 ct2 buf2 then
                      (Inl (Pdf buf2, cleanup env fs1),
                       [DataPost ''archive_retry.tar.bz2'' fileBuf2])
                    else (Inr (buf2, fs1), [DataPost ''archive_retry.tar.bz2'' fileBuf2]))))"

text \<open>
  \<open>new NextResponse(text, { status })\<close> throws for a status outside 200 to 599 and for
  a null-body status; at line 249 the exception reaches the outer \<open>catch\<close>, which
  answers 500.
\<close>

definition response_throws :: "nat \<Rightarrow> bool" where
  "response_throws st = (st < 200 \<or> 599 < st \<or> st = 204 \<or> st = 205 \<or> st = 304)"

text \<open>Lines 143 to 249: the upload of the archive, the recovery and the reply.\<close>

definition upload_archive ::
  "compile_env \<Rightarrow> filesystem \<Rightarrow> path \<Rightarrow> path option \<Rightarrow>
     compile_response \<times> filesystem \<times> compile_event list" where
  "upload_archive env fs archivePath workdir =
     (case readFile fs archivePath of
        Inl e \<Rightarrow> (PlainText 500 ''Internal server error'', fs, [])
      | Inr fileBuf \<Rightarrow>
          (let post = DataPost (basename (path_string archivePath)) fileBuf in
           case data_post env 0 (basename (path_string archivePath)) fileBuf of
             FetchThrows e \<Rightarrow> (PlainText 500 ''Internal server error'', fs, [post])
           | FetchResponse st ct buf \<Rightarrow>
               (let (early, ev) =
                      (case workdir of
                         None \<Rightarrow> (Inr (buf, fs), [])
                       | Some wd \<Rightarrow>
                           if resp_ok st then (Inr (buf, fs), [])
                           else
                             (let missing = missing_styles (utf8_decode env buf) in
                              if missing = [] then (Inr (buf, fs), [])
                              else
                                (let (fs1, fetchedAny, ev1) =
                                       fetch_missing env fs wd (first_occurrences [] missing)
                                 in if fetchedAny then
                                      (let (r, ev2) = retry_upload env fs1 wd buf
                                       in (r, ev1 @ ev2))
                                    else (Inr (buf, fs1), ev1))))
                in case early of
                     Inl (r, fs') \<Rightarrow> (r, fs', post # ev)
                   | Inr (buf', fs') \<Rightarrow>
                       (if pdf_success st ct buf then Pdf buf'
                        else if response_throws st then PlainText 500 ''Internal server error''
                        else PlainText st (utf8_decode env buf'),
                        cleanup env fs', post # ev))))"

text \<open>The handler \<open>POST\<close> of the upload route.\<close>

definition upload_POST ::
  "compile_env \<Rightarrow> rate_map \<Rightarrow> filesystem \<Rightarrow> upload_request \<Rightarrow> upload_result" where
  "upload_POST env rates fs req =
     (let (rates', limited) =
            rate_limit RATE_LIMIT_WINDOW_MS RATE_LIMIT_MAX rates
              (client_ip (up_forwarded_for req)) (now env)
      in
      if limited then
        \<lparr>up_reply = PlainText 429 ''Too many requests'', up_rates = rates', up_disk = fs,
         up_calls = []\<rparr>
      else
        (case validate_upload env req of
           Inl r \<Rightarrow> \<lparr>up_reply = r, up_rates = rates', up_disk = fs, up_calls = []\<rparr>
         | Inr f \<Rightarrow>
             (case prepare_archive env fs f of
                Inl (r, fs') \<Rightarrow>
                  \<lparr>up_reply = r, up_rates = rates', up_disk = fs', up_calls = []\<rparr>
              | Inr (archivePath, workdir, fs') \<Rightarrow>
                  if up_onlyArchive req = Some ''1'' \<or> up_onlyArchive req = Some ''true'' then
                    (let (r, fs'') = archive_only env fs' archivePath
                     in \<lparr>up_reply = r, up_rates = rates', up_disk = fs'', up_calls = []\<rparr>)
                  else
                    (let (r, fs'', ev) = upload_archive env fs' archivePath workdir
                     in \<lparr>up_reply = r, up_rates = rates', up_disk = fs'', up_calls = ev\<rparr>))))"

section \<open>Predicates and inputs of the statements on the compile routes\<close>

text \<open>
  What the engine inference looks for, in the words of the specification: a word
  occurs in the source in any letter case; it occurs so and no word character follows
  it; \<open>\usepackage{fontspec}\<close> occurs in any letter case, with any white space inside
  the braces around \<open>fontspec\<close>.
\<close>

definition occurs_ci :: "string \<Rightarrow> string \<Rightarrow> bool" where
  "occurs_ci w tex =
     (\<exists>pre mid post. tex = pre @ mid @ post \<and> map asciiLower mid = map asciiLower w)"

definition occurs_as_word :: "string \<Rightarrow> string \<Rightarrow> bool" where
  "occurs_as_word w tex =
     (\<exists>pre mid post. tex = pre @ mid @ post \<and> map asciiLower mid = map asciiLower w \<and>
        \<not> word_char_next post)"

definition occurs_usepackage_fontspec :: "string \<Rightarrow> bool" where
  "occurs_usepackage_fontspec tex =
     (\<exists>pre mid post. tex = pre @ mid @ post \<and>
        (\<exists>w1 w2. list_all isWhiteSpace w1 \<and> list_all isWhiteSpace w2 \<and>
           map asciiLower mid = backslash # ''usepackage{'' @ w1 @ ''fontspec'' @ w2 @ ''}''))"

definition lua_longer :: string where
  "lua_longer = backslash # ''directluax''"

definition lua_upper :: string where
  "lua_upper = backslash # ''DIRECTLUA{}''"

definition arial :: string where
  "arial = backslash # ''setmainfont{Arial}''"

text \<open>
  A disk with the root and \<open>/tmp\<close>, and a packer whose archive bytes name the members
  it was given.
\<close>

definition base_disk :: filesystem where
  "base_disk = [([], Dir), ([''tmp''], Dir)]"

definition toy_tar :: "(string \<times> string) list \<Rightarrow> string option" where
  "toy_tar members = Some (''BZh'' @ concat (map (\<lambda>m. CHR ''|'' # fst m) members))"

text \<open>The messages of the platform's errors.\<close>

definition blob_expected :: string where
  "blob_expected =
     ''Failed to execute 'append' on 'FormData': parameter 2 is not of type 'Blob'' @ [CHR 0x27]"

definition invalid_header :: "string \<Rightarrow> string" where
  "invalid_header v = ''Headers.append: '' @ [CHR 0x22] @ v @ [CHR 0x22] @ '' is an invalid header value.''"

text \<open>The compilation service and the mirror cannot be reached.\<close>

definition env_service_down :: compile_env where
  "env_service_down =
     \<lparr>now = 1000, MAX_UPLOAD_BYTES_env = None,
      compile_post = (\<lambda>e. FetchThrows ''fetch failed''),
      compile_get = (\<lambda>e. FetchThrows ''fetch failed''),
      data_post = (\<lambda>n name bytes. FetchThrows ''fetch failed''),
      ctan_get = (\<lambda>p. FetchThrows ''fetch failed''),
      tar_bz2 = toy_tar, mkdtemp = [''tmp'', ''latex-Ab12''], utf8_decode = (\<lambda>b. b),
      append_error = blob_expected, header_error = invalid_header\<rparr>"

text \<open>Every answer of the service is the given response.\<close>

definition env_answering :: "fetch_result \<Rightarrow> compile_env" where
  "env_answering r =
     \<lparr>now = 1000, MAX_UPLOAD_BYTES_env = None,
      compile_post = (\<lambda>e. r), compile_get = (\<lambda>e. r), data_post = (\<lambda>n name bytes. r),
      ctan_get = (\<lambda>p. FetchThrows ''fetch failed''),
      tar_bz2 = toy_tar, mkdtemp = [''tmp'', ''latex-Ab12''], utf8_decode = (\<lambda>b. b),
      append_error = blob_expected, header_error = invalid_header\<rparr>"

text \<open>
  The service answers every upload with the log of a missing \<open>foo.sty\<close>, and the mirror
  serves \<open>foo\<close>.
\<close>

definition sty_log :: string where
  "sty_log = ''! LaTeX Error: File `foo.sty' not found.''"

definition env_missing_sty :: compile_env where
  "env_missing_sty =
     \<lparr>now = 1000, MAX_UPLOAD_BYTES_env = None,
      compile_post = (\<lambda>e. FetchThrows ''fetch failed''),
      compile_get = (\<lambda>e. FetchThrows ''fetch failed''),
      data_post = (\<lambda>n name bytes. FetchResponse 500 (Some ''text/plain'') sty_log),
      ctan_get = (\<lambda>p. if p = ''foo'' then FetchResponse 200 None ''% foo''
                       else FetchResponse 404 None []),
      tar_bz2 = toy_tar, mkdtemp = [''tmp'', ''latex-Ab12''], utf8_decode = (\<lambda>b. b),
      append_error = blob_expected, header_error = invalid_header\<rparr>"

definition body_article :: CompileBody where
  "body_article = \<lparr>body_tex = Some article, body_engine = None\<rparr>"

definition upload_cv :: upload_request where
  "upload_cv =
     \<lparr>up_forwarded_for = Some ''10.0.0.7'',
      up_content_type = Some ''multipart/form-data; boundary=x'',
      up_form = Inr (Some (FormFile ''cv.tex'' article)), up_onlyArchive = None\<rparr>"

definition upload_cv_archive_only :: upload_request where
  "upload_cv_archive_only = upload_cv\<lparr>up_onlyArchive := Some ''1''\<rparr>"


text \<open>
  The disk after the upload \<open>cv.tex\<close> has been stored and packed in the temporary
  directory.
\<close>

definition prepared_disk :: filesystem where
  "prepared_disk =
     base_disk @
     [([''tmp'', ''latex-Ab12''], Dir),
      ([''tmp'', ''latex-Ab12'', ''cv.tex''], File article),
      ([''tmp'', ''latex-Ab12'', ''work''], Dir),
      ([''tmp'', ''latex-Ab12'', ''work'', ''main.tex''], File article),
      ([''tmp'', ''latex-Ab12'', ''archive.tar.bz2''], File ''BZh|main.tex'')]"

text \<open>
  The signature that makes a response a PDF whatever its content type: an ok status and
  a body of more than four bytes that starts with \<open>%PDF\<close>.
\<close>

definition pdf_signature :: "nat \<Rightarrow> string \<Rightarrow> bool" where
  "pdf_signature st buf = (resp_ok st \<and> 4 < length buf \<and> take 4 buf = ''%PDF'')"

definition plain_pdf :: fetch_result where
  "plain_pdf = FetchResponse 200 (Some ''text/plain'') ''%PDF-1.4''"

definition plain_four_bytes :: fetch_result where
  "plain_four_bytes = FetchResponse 200 (Some ''text/plain'') ''%PDF''"

text \<open>A response that the handlers take for a PDF.\<close>

fun fetch_success :: "fetch_result \<Rightarrow> bool" where
  "fetch_success (FetchThrows msg) = False"
| "fetch_success (FetchResponse st ct buf) = pdf_success st ct buf"

text \<open>
  The service cannot be reached, except that the direct GET for \<open>xelatex\<close> is answered
  with a PDF declared as plain text.
\<close>

definition env_xelatex_get :: compile_env where
  "env_xelatex_get =
     env_service_down\<lparr>compile_get :=
       (\<lambda>e. if e = Xelatex then plain_pdf else FetchThrows ''fetch failed'')\<rparr>"

text \<open>
  The first upload is answered with the log of a missing \<open>foo.sty\<close>, the second with a
  PDF declared as plain text.
\<close>

definition env_retry_pdf :: compile_env where
  "env_retry_pdf =
     env_missing_sty\<lparr>data_post :=
       (\<lambda>n name bytes. if n = 0 then FetchResponse 500 (Some ''text/plain'') sty_log
                         else plain_pdf)\<rparr>"



text \<open>The same disk once \<open>foo.sty\<close> has been fetched into the working directory.\<close>

definition fetched_disk :: filesystem where
  "fetched_disk = prepared_disk @ [([''tmp'', ''latex-Ab12'', ''work'', ''foo.sty''], File ''% foo'')]"


section \<open>Evaluating characters\<close>

lemma char_is_char_of: "(c = char_of (n::nat)) = ((of_char c :: nat) = n mod 256)"
proof
  assume "c = char_of n"
  then show "(of_char c :: nat) = n mod 256" by simp
next
  assume "(of_char c :: nat) = n mod 256"
  then have "char_of (of_char c :: nat) = char_of (n mod 256)" by (rule arg_cong)
  then show "c = char_of n" by simp
qed

lemma char_of_is_char: "(char_of (n::nat) = c) = ((of_char c :: nat) = n mod 256)"
  using char_is_char_of[of c n] by auto

section \<open>Facts about the tailoring route\<close>

lemma re_test_prefix: "re_test (prefix p) s = sublist p s"
  by (induction s) (auto simp: sublist_Cons_right)

lemma has_documentclass_iff: "has_documentclass t = sublist (backslash # ''documentclass'') t"
  by (simp add: has_documentclass_def re_test_prefix)

declare generateWithRetry.simps [simp del]

lemma gwr_blank:
  "(\<And>j. sdk_blank (sdk env j m)) \<Longrightarrow> blank (text_or_empty (fst (generateWithRetry env m n i k)))"
proof (induction env m n i k rule: generateWithRetry.induct)
  case (1 env name maxRetries i k)
  show ?case
  proof (cases "i < maxRetries")
    case False
    then show ?thesis by (simp add: generateWithRetry.simps[of env name maxRetries i k] blank_def text_or_empty_def)
  next
    case True
    note lt = this
    show ?thesis
    proof (cases "sdk env k name")
      case (SdkText t)
      with 1(2)[of k] lt show ?thesis
        by (simp add: generateWithRetry.simps[of env name maxRetries i k])
    next
      case (SdkApiError st)
      show ?thesis
      proof (cases "st = 429")
        case True
        from 1(1)[OF lt SdkApiError True refl] 1(2)
        have "blank (text_or_empty (fst (generateWithRetry env name maxRetries (Suc i) (Suc k))))" by simp
        with lt SdkApiError True show ?thesis
          by (auto simp: generateWithRetry.simps[of env name maxRetries i k] split: prod.splits)
      next
        case False
        with lt SdkApiError show ?thesis
          by (simp add: generateWithRetry.simps[of env name maxRetries i k] blank_def text_or_empty_def)
      qed
    next
      case SdkOtherError
      with lt show ?thesis
        by (simp add: generateWithRetry.simps[of env name maxRetries i k] blank_def text_or_empty_def)
    qed
  qed
qed

lemma sdk_loop_blank:
  "blank tex \<Longrightarrow> (\<And>j m. sdk_blank (sdk env j m)) \<Longrightarrow> blank (fst (sdk_loop env tex k ms))"
proof (induction ms arbitrary: tex k)
  case Nil
  then show ?case by simp
next
  case (Cons m ms)
  show ?case
  proof (cases "m = []")
    case True
    with Cons show ?thesis by simp
  next
    case False
    obtain r ev k' where g: "generateWithRetry env m 3 0 k = (r, ev, k')" by (cases "generateWithRetry env m 3 0 k") auto
    have b: "blank (text_or_empty r)" using gwr_blank[of env m 3 0 k] Cons.prems(2) g by simp
    have "blank (fst (sdk_loop env (text_or_empty r) k' ms))" using Cons.IH[OF b] Cons.prems(2) by simp
    with False g b show ?thesis by (auto split: prod.splits)
  qed
qed

lemma raw_loop_blank:
  "blank tex \<Longrightarrow> (\<And>j m. raw_blank (rawGenerateV1 env j m)) \<Longrightarrow> blank (fst (raw_loop env tex k ms))"
proof (induction ms arbitrary: k)
  case Nil
  then show ?case by simp
next
  case (Cons m ms)
  show ?case
  proof (cases "m = []")
    case True
    with Cons show ?thesis by simp
  next
    case False
    show ?thesis
    proof (cases "rawGenerateV1 env k m")
      case (Inl a)
      with False Cons.prems(1) show ?thesis by simp
    next
      case (Inr t)
      with Cons.prems(2)[of k m] have "blank t" by simp
      moreover have "blank (fst (raw_loop env tex (Suc k) ms))" using Cons.IH[OF Cons.prems(1)] Cons.prems(2) by simp
      ultimately show ?thesis using False Inr by (auto split: prod.splits)
    qed
  qed
qed

lemma generate_exhausted:
  assumes "\<And>j m. sdk_blank (sdk env j m)" and "\<And>j m. raw_blank (rawGenerateV1 env j m)"
  shows "fst (generate env ms) = None"
proof -
  obtain tex ev k where s: "sdk_loop env [] 0 ms = (tex, ev, k)" by (cases "sdk_loop env [] 0 ms") auto
  have b0: "blank []" by (simp add: blank_def)
  have b: "blank tex" using sdk_loop_blank[OF b0, of env 0 ms] assms(1) s by simp
  obtain tex' ev' where r: "raw_loop env tex 0 ms = (tex', ev')" by (cases "raw_loop env tex 0 ms") auto
  have "blank tex'" using raw_loop_blank[OF b, of env 0 ms] assms(2) r by simp
  with s b r show ?thesis by (simp add: generate_def)
qed

lemmas ex_defs = body_ok_def request_ok_def letter_def env_letter_def env_silent_def
  request_gemini_pro_def env_space_first_def env_busy_first_def request_no_jd_def body_no_jd_def
  request_not_json_def rates_used_up_def article_def backslash_def

lemmas route_defs = tailor_POST_def tailor_upstream_def rate_limit_def client_ip_def trim_def
  isWhiteSpace_def TAILOR_RATE_WINDOW_MS_def TAILOR_RATE_MAX_def truthy_def or_else_def
  jd_text_def resolve_base_def validModels_def staticModels_def keep_model_def
  List.map_filter_simps generate_def blank_def text_or_empty_def finish_def
  stripCodeFences_def strip_leading_fence_def trailing_fence_at_def prefix_ci_def
  asciiLower_def has_documentclass_def generateWithRetry.simps rawGenerateV1_def resp_ok_def
  internal_error_def

lemma letter_clean: "trim (stripCodeFences letter) = ''Dear Sir,''"
  by (simp add: ex_defs route_defs)

lemma keep_static: "List.map_filter keep_model (map Some staticModels) = staticModels"
  by (simp add: staticModels_def List.map_filter_simps keep_model_def)

lemma map_filter_append: "List.map_filter f (xs @ ys) = List.map_filter f xs @ List.map_filter f ys"
  by (simp add: List.map_filter_def)

lemma validModels_split:
  "validModels r e = List.map_filter keep_model [r, e] @ staticModels"
  unfolding validModels_def map_filter_append keep_static ..


subsection \<open>C2: a text without a document class gives the base back\<close>

lemma generate_Some_not_blank: "fst (generate env ms) = Some tex \<Longrightarrow> \<not> blank tex"
  by (auto simp: generate_def Let_def split: prod.splits if_splits)

lemma letter_generated:
  "fst (generate env_letter (validModels (model body_ok) (GEMINI_MODEL env_letter))) = Some letter"
  by (simp add: ex_defs route_defs)

text \<open>
  Claim C2 as stated fails. When every call of a model answers with one space, on the
  SDK path and on the raw HTTP path, the output has no \<open>\documentclass\<close> once its
  fences are stripped and it is trimmed, yet the reply is the error 502 and not the
  base: a blank output never reaches the check of the document class.
\<close>

theorem blank_output_answers_502_counterexample:
  "sdk env_space_always = (\<lambda>k m. SdkText (Some '' '')) \<and>
   rawGenerateV1 env_space_always = (\<lambda>k m. Inr '' '') \<and>
   \<not> sublist (backslash # ''documentclass'') (trim (stripCodeFences '' '')) \<and>
   reply (tailor_POST env_space_always Map.empty request_ok) =
     JsonResponse 502 (TriedJson ''Gemini API call failed. Try a different model.'' staticModels)"
  by (simp add: env_space_always_def ex_defs route_defs sublist_code fun_eq_iff)

text \<open>
  Claim C2, amended. For a request that passes the limiter and the validation and has a
  resolved base, the generation stage decides the reply. A text that it yields is not
  blank; when that text, with its code fences stripped and trimmed, does not contain
  the token \<open>\documentclass\<close>, the reply has status 200 and carries the base
  unchanged: neither the generated text nor an error. When the cleaned text contains
  the token, the reply carries the cleaned text. When the stage yields no text, every
  output being blank, the reply is the error 502 with the candidate list.
\<close>

theorem tailor_degrades_to_base:
  assumes "json_body req = Inr b"
    and "\<not> snd (rate_limit TAILOR_RATE_WINDOW_MS TAILOR_RATE_MAX rates
                   (client_ip (forwarded_for req)) (clock env))"
    and "truthy (jd b)" and "16 \<le> length (trim (jd_text b))"
    and "truthy (or_else (apiKey b) (GEMINI_API_KEY env))"
    and "fst (resolve_base env b) = Inr base"
  shows "reply (tailor_POST env rates req) =
           (case fst (generate env (validModels (model b) (GEMINI_MODEL env))) of
              None \<Rightarrow>
                JsonResponse 502
                  (TriedJson ''Gemini API call failed. Try a different model.''
                     (validModels (model b) (GEMINI_MODEL env)))
            | Some tex \<Rightarrow>
                if sublist (backslash # ''documentclass'') (trim (stripCodeFences tex))
                then JsonResponse 200 (TexJson (trim (stripCodeFences tex)))
                else JsonResponse 200 (TexJson base)) \<and>
         (\<forall>tex. fst (generate env (validModels (model b) (GEMINI_MODEL env))) = Some tex
                 \<longrightarrow> \<not> blank tex)"
proof -
  obtain rates' where rl:
    "rate_limit TAILOR_RATE_WINDOW_MS TAILOR_RATE_MAX rates
       (client_ip (forwarded_for req)) (clock env) = (rates', False)"
    using assms(2)
    by (cases "rate_limit TAILOR_RATE_WINDOW_MS TAILOR_RATE_MAX rates
                 (client_ip (forwarded_for req)) (clock env)") auto
  obtain ev0 where rb: "resolve_base env b = (Inr base, ev0)"
    using assms(6) by (cases "resolve_base env b") auto
  obtain g ev where g: "generate env (validModels (model b) (GEMINI_MODEL env)) = (g, ev)"
    by (cases "generate env (validModels (model b) (GEMINI_MODEL env))") auto
  have "reply (tailor_POST env rates req) =
           (case g of
              None \<Rightarrow>
                JsonResponse 502
                  (TriedJson ''Gemini API call failed. Try a different model.''
                     (validModels (model b) (GEMINI_MODEL env)))
            | Some tex \<Rightarrow>
                if sublist (backslash # ''documentclass'') (trim (stripCodeFences tex))
                then JsonResponse 200 (TexJson (trim (stripCodeFences tex)))
                else JsonResponse 200 (TexJson base))"
    using assms(1,3,4,5) rl rb g
    by (cases g) (simp_all add: tailor_POST_def tailor_upstream_def finish_def has_documentclass_iff)
  moreover have "\<forall>tex. fst (generate env (validModels (model b) (GEMINI_MODEL env))) = Some tex
                 \<longrightarrow> \<not> blank tex"
    using generate_Some_not_blank by blast
  ultimately show ?thesis using g by simp
qed

theorem tailor_degrades_to_base_witness:
  "\<not> sublist (backslash # ''documentclass'') (trim (stripCodeFences letter)) \<and>
   reply (tailor_POST env_letter Map.empty request_ok) = JsonResponse 200 (TexJson article)"
proof -
  have a: "json_body request_ok = Inr body_ok" by (simp add: request_ok_def)
  have b: "\<not> snd (rate_limit TAILOR_RATE_WINDOW_MS TAILOR_RATE_MAX Map.empty
                   (client_ip (forwarded_for request_ok)) (clock env_letter))"
    by (simp add: rate_limit_def TAILOR_RATE_MAX_def)
  have c: "truthy (jd body_ok)" by (simp add: body_ok_def truthy_def)
  have d: "16 \<le> length (trim (jd_text body_ok))"
    by (simp add: body_ok_def jd_text_def trim_def isWhiteSpace_def)
  have e: "truthy (or_else (apiKey body_ok) (GEMINI_API_KEY env_letter))"
    by (simp add: body_ok_def truthy_def or_else_def)
  have f: "fst (resolve_base env_letter body_ok) = Inr article"
    by (simp add: body_ok_def resolve_base_def truthy_def article_def)
  have n: "\<not> sublist (backslash # ''documentclass'') (trim (stripCodeFences letter))"
    by (simp add: letter_clean backslash_def sublist_code)
  from tailor_degrades_to_base[OF a b c d e f] letter_generated n show ?thesis by simp
qed

subsection \<open>C4: a missing or short job description\<close>

text \<open>
  Claim C4 as stated fails: the limiter runs before the validation, so the request
  without a job description that is the twenty-first of its IP in the window is answered
  429, not 400.
\<close>

theorem short_jd_rate_limited_counterexample:
  "json_body request_no_jd = Inr body_no_jd \<and> jd body_no_jd = None \<and>
   reply (tailor_POST env_letter rates_used_up request_no_jd) =
     JsonResponse 429 (ErrorJson ''Too many requests'')"
  by (simp add: ex_defs route_defs)

text \<open>
  Claim C4, amended. For every request with a parsed body whose job description is
  missing or shorter than 16 characters after trimming, the handler makes no call at all
  (no event, so no network call), and it replies 400 with the validation error unless
  the limiter is over its maximum for the IP, in which case it replies 429.
\<close>

theorem short_jd_rejected_without_call:
  assumes "json_body req = Inr b"
    and "jd b = None \<or> length (trim (jd_text b)) < 16"
  shows "events (tailor_POST env rates req) = [] \<and>
         reply (tailor_POST env rates req) =
           (if snd (rate_limit TAILOR_RATE_WINDOW_MS TAILOR_RATE_MAX rates
                      (client_ip (forwarded_for req)) (clock env))
            then JsonResponse 429 (ErrorJson ''Too many requests'')
            else JsonResponse 400
                   (ErrorJson ''JD is required and should be at least 16 characters''))"
  using assms
  by (auto simp: tailor_POST_def tailor_upstream_def truthy_def split: prod.splits)

theorem short_jd_rejected_without_call_witness:
  "events (tailor_POST env_letter Map.empty request_no_jd) = [] \<and>
   reply (tailor_POST env_letter Map.empty request_no_jd) =
     JsonResponse 400 (ErrorJson ''JD is required and should be at least 16 characters'')"
proof -
  have a: "json_body request_no_jd = Inr body_no_jd"
    by (simp add: request_no_jd_def)
  have b: "jd body_no_jd = None \<or> length (trim (jd_text body_no_jd)) < 16"
    by (simp add: body_no_jd_def)
  have c: "\<not> snd (rate_limit TAILOR_RATE_WINDOW_MS TAILOR_RATE_MAX Map.empty
                      (client_ip (forwarded_for request_no_jd)) (clock env_letter))"
    by (simp add: rate_limit_def TAILOR_RATE_MAX_def)
  from short_jd_rejected_without_call[OF a b, of env_letter Map.empty] c show ?thesis by simp
qed

subsection \<open>C5: the candidates reported when every model fails\<close>

text \<open>
  Claim C5 as stated fails: the candidate list is filtered but not deduplicated. With
  the requested model \<open>gemini-pro\<close>, which is also a static candidate, the reported
  list has 11 entries and its deduplication has 10.
\<close>

theorem tried_list_keeps_duplicates_counterexample:
  "reply (tailor_POST env_silent Map.empty request_gemini_pro) =
     JsonResponse 502 (TriedJson ''Gemini API call failed. Try a different model.''
       (''gemini-pro'' # staticModels)) \<and>
   length (''gemini-pro'' # staticModels) = 11 \<and>
   length (remdups (''gemini-pro'' # staticModels)) = 10"
  by (simp add: ex_defs route_defs)

text \<open>
  Claim C5, amended. For every request that passes the limiter and the validation and
  has a base, if no call of the SDK and no call of the raw HTTP path gives a text that
  is not blank, the reply is 502 and reports the candidate list: the requested model
  and the server's default model, each kept when it is a non-empty string without
  \<open>embedding\<close> and \<open>gecko\<close>, then the ten static models, duplicates kept. Its length
  is that of the filtered list, not of a deduplicated one.
\<close>

theorem exhaustion_reports_candidates:
  assumes "json_body req = Inr b"
    and "\<not> snd (rate_limit TAILOR_RATE_WINDOW_MS TAILOR_RATE_MAX rates
                   (client_ip (forwarded_for req)) (clock env))"
    and "truthy (jd b)" and "16 \<le> length (trim (jd_text b))"
    and "truthy (or_else (apiKey b) (GEMINI_API_KEY env))"
    and "fst (resolve_base env b) = Inr base"
    and "\<And>k m. sdk_blank (sdk env k m)"
    and "\<And>k m. raw_blank (rawGenerateV1 env k m)"
  shows "reply (tailor_POST env rates req) =
           JsonResponse 502 (TriedJson ''Gemini API call failed. Try a different model.''
             (List.map_filter keep_model [model b, GEMINI_MODEL env] @ staticModels)) \<and>
         length (List.map_filter keep_model [model b, GEMINI_MODEL env] @ staticModels) =
           length (List.map_filter keep_model [model b, GEMINI_MODEL env]) + 10"
proof -
  obtain rates' where rl:
    "rate_limit TAILOR_RATE_WINDOW_MS TAILOR_RATE_MAX rates
       (client_ip (forwarded_for req)) (clock env) = (rates', False)"
    using assms(2)
    by (cases "rate_limit TAILOR_RATE_WINDOW_MS TAILOR_RATE_MAX rates
                 (client_ip (forwarded_for req)) (clock env)") auto
  obtain ev0 where rb: "resolve_base env b = (Inr base, ev0)"
    using assms(6) by (cases "resolve_base env b") auto
  obtain ev where g: "generate env (validModels (model b) (GEMINI_MODEL env)) = (None, ev)"
    using generate_exhausted[of env "validModels (model b) (GEMINI_MODEL env)"] assms(7,8)
    by (cases "generate env (validModels (model b) (GEMINI_MODEL env))") auto
  have "reply (tailor_POST env rates req) =
          JsonResponse 502 (TriedJson ''Gemini API call failed. Try a different model.''
            (validModels (model b) (GEMINI_MODEL env)))"
    using assms(1,3,4,5) rl rb g by (simp add: tailor_POST_def tailor_upstream_def)
  moreover have "length staticModels = 10" by (simp add: staticModels_def)
  ultimately show ?thesis by (simp add: validModels_split)
qed

theorem exhaustion_reports_candidates_witness:
  "reply (tailor_POST env_silent Map.empty request_ok) =
     JsonResponse 502 (TriedJson ''Gemini API call failed. Try a different model.'' staticModels)"
proof -
  have a: "json_body request_ok = Inr body_ok" by (simp add: request_ok_def)
  have b: "\<not> snd (rate_limit TAILOR_RATE_WINDOW_MS TAILOR_RATE_MAX Map.empty
                   (client_ip (forwarded_for request_ok)) (clock env_silent))"
    by (simp add: rate_limit_def TAILOR_RATE_MAX_def)
  have c: "truthy (jd body_ok)" by (simp add: body_ok_def truthy_def)
  have d: "16 \<le> length (trim (jd_text body_ok))"
    by (simp add: body_ok_def jd_text_def trim_def isWhiteSpace_def)
  have e: "truthy (or_else (apiKey body_ok) (GEMINI_API_KEY env_silent))"
    by (simp add: body_ok_def truthy_def or_else_def)
  have f: "fst (resolve_base env_silent body_ok) = Inr article"
    by (simp add: body_ok_def resolve_base_def truthy_def article_def)
  have g: "\<And>k m. sdk_blank (sdk env_silent k m)" by (simp add: env_silent_def blank_def text_or_empty_def)
  have h: "\<And>k m. raw_blank (rawGenerateV1 env_silent k m)"
    by (simp add: env_silent_def rawGenerateV1_def resp_ok_def List.map_filter_simps truthy_def blank_def)
  have m: "List.map_filter keep_model [model body_ok, GEMINI_MODEL env_silent] = []"
    by (simp add: body_ok_def env_silent_def List.map_filter_simps keep_model_def)
  from exhaustion_reports_candidates[OF a b c d e f g h] m show ?thesis by simp
qed

subsection \<open>C8: retries and the end of the candidate loop\<close>







subsection \<open>C9: the limiter runs before the validation\<close>

text \<open>
  Claim C9 as stated fails for a request whose body is not JSON: \<open>req.json()\<close> throws
  before the limiter is reached, the reply is 500 and the counter of the IP is left as
  it was.
\<close>

theorem unparsed_body_keeps_budget_counterexample:
  "json_body request_not_json = Inl ''Unexpected end of JSON input'' \<and>
   rate_after (tailor_POST env_letter rates_used_up request_not_json) ''10.0.0.7'' =
     rates_used_up ''10.0.0.7'' \<and>
   reply (tailor_POST env_letter rates_used_up request_not_json) =
     JsonResponse 500 (ErrorJson ''Unexpected end of JSON input'')"
  by (simp add: ex_defs route_defs)

text \<open>
  Claim C9, amended. For every request whose body parses, whatever its fields are (a
  job description missing or too short, no API key), the counter of its IP becomes one
  more than what the IP had used in the running window, and when that is over the
  maximum of 20 the reply is 429, not 400.
\<close>

theorem limiter_runs_before_validation:
  assumes "json_body req = Inr b"
  shows "(\<exists>r. rate_after (tailor_POST env rates req) (client_ip (forwarded_for req)) =
            Some (used_before rates (client_ip (forwarded_for req)) (clock env) + 1, r)) \<and>
         (used_before rates (client_ip (forwarded_for req)) (clock env) + 1 > TAILOR_RATE_MAX \<longrightarrow>
            reply (tailor_POST env rates req) = JsonResponse 429 (ErrorJson ''Too many requests''))"
proof -
  obtain rates' limited where rl:
    "rate_limit TAILOR_RATE_WINDOW_MS TAILOR_RATE_MAX rates (client_ip (forwarded_for req)) (clock env)
       = (rates', limited)" by (cases "rate_limit TAILOR_RATE_WINDOW_MS TAILOR_RATE_MAX rates (client_ip (forwarded_for req)) (clock env)") auto
  have ra: "rate_after (tailor_POST env rates req) = rates'"
    using assms rl
    by (auto simp: tailor_POST_def tailor_upstream_def Let_def split: prod.splits sum.splits option.splits)
  have r1: "\<exists>r. rates' (client_ip (forwarded_for req)) =
       Some (used_before rates (client_ip (forwarded_for req)) (clock env) + 1, r)"
    using rl by (auto simp: rate_limit_def used_before_def Let_def split: option.splits prod.splits)
  have r2: "limited = (used_before rates (client_ip (forwarded_for req)) (clock env) + 1 > TAILOR_RATE_MAX)"
    using rl by (auto simp: rate_limit_def used_before_def Let_def split: option.splits prod.splits)
  have "limited \<Longrightarrow> reply (tailor_POST env rates req) = JsonResponse 429 (ErrorJson ''Too many requests'')"
    using assms rl by (simp add: tailor_POST_def tailor_upstream_def)
  with ra r1 r2 show ?thesis by simp
qed

theorem limiter_runs_before_validation_witness:
  "rate_after (tailor_POST env_letter rates_used_up request_no_jd) ''10.0.0.7'' = Some (21, 50000) \<and>
   reply (tailor_POST env_letter rates_used_up request_no_jd) =
     JsonResponse 429 (ErrorJson ''Too many requests'')"
proof -
  have a: "json_body request_no_jd = Inr body_no_jd"
    by (simp add: request_no_jd_def)
  have ip: "client_ip (forwarded_for request_no_jd) = ''10.0.0.7''"
    by (simp add: request_no_jd_def client_ip_def trim_def isWhiteSpace_def)
  have u: "used_before rates_used_up ''10.0.0.7'' (clock env_letter) = 20"
    by (simp add: used_before_def rates_used_up_def env_letter_def)
  have ra: "rate_after (tailor_POST env_letter rates_used_up request_no_jd) ''10.0.0.7'' = Some (21, 50000)"
    by (simp add: ex_defs route_defs)
  from limiter_runs_before_validation[OF a, of env_letter rates_used_up] ip u ra show ?thesis
    by (simp add: TAILOR_RATE_MAX_def)
qed

section \<open>Facts about the engine inference\<close>

lemma re_test_iff: "re_test m s = (\<exists>pre post. s = pre @ post \<and> m post)"
proof (induction s)
  case Nil
  then show ?case by simp
next
  case (Cons c cs)
  show ?case
  proof
    assume "re_test m (c # cs)"
    then consider "m (c # cs)" | "re_test m cs" by auto
    then show "\<exists>pre post. c # cs = pre @ post \<and> m post"
    proof cases
      case 1
      then have "c # cs = [] @ (c # cs) \<and> m (c # cs)" by simp
      then show ?thesis by blast
    next
      case 2
      with Cons.IH obtain pre post where "cs = pre @ post" "m post" by auto
      then have "c # cs = (c # pre) @ post \<and> m post" by simp
      then show ?thesis by blast
    qed
  next
    assume "\<exists>pre post. c # cs = pre @ post \<and> m post"
    then obtain pre post where p: "c # cs = pre @ post" "m post" by auto
    show "re_test m (c # cs)"
    proof (cases pre)
      case Nil
      with p show ?thesis by auto
    next
      case (Cons a pre')
      with p have "cs = pre' @ post" by simp
      with p(2) Cons.IH show ?thesis by auto
    qed
  qed
qed

lemma prefix_ci_iff:
  "prefix_ci p s = (\<exists>mid post. s = mid @ post \<and> map asciiLower mid = map asciiLower p)"
  unfolding prefix_ci_def prefix_def by (auto simp: map_eq_append_conv append_eq_map_conv)

lemma prefix_ci_boundary:
  "(prefix_ci p s \<and> \<not> word_char_next (drop (length p) s)) =
   (\<exists>mid post. s = mid @ post \<and> map asciiLower mid = map asciiLower p \<and> \<not> word_char_next post)"
proof
  assume a: "prefix_ci p s \<and> \<not> word_char_next (drop (length p) s)"
  then obtain mid post where m: "s = mid @ post" "map asciiLower mid = map asciiLower p"
    by (auto simp: prefix_ci_iff)
  from m(2) have "length mid = length p" by (metis length_map)
  with m(1) have "drop (length p) s = post" by simp
  with a m show "\<exists>mid post. s = mid @ post \<and> map asciiLower mid = map asciiLower p \<and> \<not> word_char_next post"
    by auto
next
  assume "\<exists>mid post. s = mid @ post \<and> map asciiLower mid = map asciiLower p \<and> \<not> word_char_next post"
  then obtain mid post where m: "s = mid @ post" "map asciiLower mid = map asciiLower p" "\<not> word_char_next post"
    by auto
  from m(2) have "length mid = length p" by (metis length_map)
  with m(1) have "drop (length p) s = post" by simp
  with m show "prefix_ci p s \<and> \<not> word_char_next (drop (length p) s)"
    by (auto simp: prefix_ci_iff)
qed

lemma directlua_at_iff:
  "directlua_at s =
   (\<exists>mid post. s = mid @ post \<and> map asciiLower mid = map asciiLower (backslash # ''directlua'') \<and>
      \<not> word_char_next post)"
proof -
  have l: "length (backslash # ''directlua'') = 10" by simp
  show ?thesis unfolding directlua_at_def
    using prefix_ci_boundary[of "backslash # ''directlua''" s] unfolding l .
qed

lemma setmainfont_at_iff:
  "setmainfont_at s =
   (\<exists>mid post. s = mid @ post \<and> map asciiLower mid = map asciiLower (backslash # ''setmainfont'') \<and>
      \<not> word_char_next post)"
proof -
  have l: "length (backslash # ''setmainfont'') = 12" by simp
  show ?thesis unfolding setmainfont_at_def
    using prefix_ci_boundary[of "backslash # ''setmainfont''" s] unfolding l .
qed


lemma ws_code: "isWhiteSpace c = (of_char c \<in> {9, 10, 11, 12, 13, 32, 160 :: nat})"
proof -
  have e: "\<And>d. (c = d) = ((of_char c :: nat) = of_char d)" by simp
  show ?thesis unfolding isWhiteSpace_def e by simp
qed

lemma ws_lower: "isWhiteSpace (asciiLower c) = isWhiteSpace c"
  by (auto simp: ws_code asciiLower_def Let_def)

lemma lower_ws: "isWhiteSpace c \<Longrightarrow> asciiLower c = c"
  by (auto simp: ws_code asciiLower_def Let_def)

lemma lower_brace: "asciiLower c = CHR ''}'' \<Longrightarrow> c = CHR ''}''"
proof -
  assume a: "asciiLower c = CHR ''}''"
  show ?thesis
  proof (cases "65 \<le> (of_char c :: nat) \<and> (of_char c :: nat) \<le> 90")
    case True
    with a have "char_of ((of_char c :: nat) + 32) = CHR ''}''" by (simp add: asciiLower_def)
    then have "(of_char (char_of ((of_char c :: nat) + 32)) :: nat) = of_char CHR ''}''" by simp
    with True show ?thesis by simp
  next
    case False
    with a show ?thesis by (simp add: asciiLower_def)
  qed
qed


lemma lower_not_ws: "\<not> isWhiteSpace (asciiLower c) \<Longrightarrow> \<not> isWhiteSpace c"
  by (simp add: ws_lower)

lemma map_lower_ws: "list_all isWhiteSpace w \<Longrightarrow> map asciiLower w = w"
  by (induction w) (auto simp: lower_ws)

lemma ws_of_lower: "list_all isWhiteSpace (map asciiLower a) \<Longrightarrow> list_all isWhiteSpace a"
  by (induction a) (auto simp: ws_lower)

lemma dropWhile_ws_skip:
  assumes "list_all isWhiteSpace a" and "r \<noteq> []" and "\<not> isWhiteSpace (hd r)"
  shows "dropWhile isWhiteSpace (a @ r) = r"
proof -
  from assms(1) have "dropWhile isWhiteSpace (a @ r) = dropWhile isWhiteSpace r"
    by (simp add: dropWhile_append2 list_all_iff)
  also from assms(2,3) have "\<dots> = r" by (cases r) auto
  finally show ?thesis .
qed

lemma ws_takeWhile: "list_all isWhiteSpace (takeWhile isWhiteSpace t)"
  by (induction t) auto

lemma fenced_match_iff:
  assumes f: "f \<noteq> []" "\<not> isWhiteSpace (asciiLower (hd f))"
    and e: "e \<noteq> []" "\<not> isWhiteSpace (hd e)" "\<And>x. map asciiLower x = e \<Longrightarrow> x = e"
      "map asciiLower e = e"
  shows "(prefix_ci p s \<and>
          prefix_ci f (dropWhile isWhiteSpace (drop (length p) s)) \<and>
          prefix e (dropWhile isWhiteSpace
                      (drop (length f) (dropWhile isWhiteSpace (drop (length p) s))))) =
         (\<exists>mid post. s = mid @ post \<and>
            (\<exists>w1 w2. list_all isWhiteSpace w1 \<and> list_all isWhiteSpace w2 \<and>
               map asciiLower mid = map asciiLower p @ w1 @ map asciiLower f @ w2 @ e))"
    (is "?L = ?R")
proof
  assume L: ?L
  then have "prefix_ci p s" by blast
  then obtain m1 t1 where m1: "s = m1 @ t1" "map asciiLower m1 = map asciiLower p"
    unfolding prefix_ci_iff by blast
  from m1(2) have "length m1 = length p" by (metis length_map)
  with m1(1) have d1: "drop (length p) s = t1" by simp
  define w1 where "w1 = takeWhile isWhiteSpace t1"
  define r where "r = dropWhile isWhiteSpace t1"
  have t1: "t1 = w1 @ r" by (simp add: w1_def r_def)
  from L have "prefix_ci f (dropWhile isWhiteSpace (drop (length p) s))" by blast
  then have "prefix_ci f r" unfolding d1 r_def .
  then obtain m2 t2 where m2: "r = m2 @ t2" "map asciiLower m2 = map asciiLower f"
    unfolding prefix_ci_iff by blast
  from m2(2) have "length m2 = length f" by (metis length_map)
  with m2(1) have d2: "drop (length f) r = t2" by simp
  define w2 where "w2 = takeWhile isWhiteSpace t2"
  from L have "prefix e (dropWhile isWhiteSpace
                      (drop (length f) (dropWhile isWhiteSpace (drop (length p) s))))" by blast
  then have "prefix e (dropWhile isWhiteSpace t2)" unfolding d1 r_def[symmetric] d2 .
  then obtain post where post: "dropWhile isWhiteSpace t2 = e @ post" by (auto simp: prefix_def)
  have t2: "t2 = w2 @ e @ post"
  proof -
    have "t2 = takeWhile isWhiteSpace t2 @ dropWhile isWhiteSpace t2" by simp
    then show ?thesis unfolding post w2_def .
  qed
  have ws1: "list_all isWhiteSpace w1" and ws2: "list_all isWhiteSpace w2"
    by (simp_all add: w1_def w2_def ws_takeWhile)
  have "s = (m1 @ w1 @ m2 @ w2 @ e) @ post"
    by (simp only: m1(1) t1 m2(1) t2 append_assoc)
  moreover have "map asciiLower (m1 @ w1 @ m2 @ w2 @ e) =
      map asciiLower p @ w1 @ map asciiLower f @ w2 @ e"
    using m1(2) m2(2) map_lower_ws[OF ws1] map_lower_ws[OF ws2] e(4) by simp
  ultimately show ?R using ws1 ws2 by blast
next
  assume ?R
  then obtain mid post w1 w2 where R: "s = mid @ post" "list_all isWhiteSpace w1"
    "list_all isWhiteSpace w2"
    "map asciiLower mid = map asciiLower p @ w1 @ map asciiLower f @ w2 @ e" by blast
  from R(4) obtain m1 x1 where x1': "mid = m1 @ x1" "map asciiLower p = map asciiLower m1"
    "w1 @ map asciiLower f @ w2 @ e = map asciiLower x1"
    unfolding map_eq_append_conv by blast
  from x1'(3)[symmetric] obtain a x2 where x2': "x1 = a @ x2" "w1 = map asciiLower a"
    "map asciiLower f @ w2 @ e = map asciiLower x2"
    unfolding map_eq_append_conv by blast
  from x2'(3)[symmetric] obtain m2 x3 where x3': "x2 = m2 @ x3" "map asciiLower f = map asciiLower m2"
    "w2 @ e = map asciiLower x3"
    unfolding map_eq_append_conv by blast
  from x3'(3)[symmetric] obtain b e' where x4': "x3 = b @ e'" "w2 = map asciiLower b"
    "e = map asciiLower e'"
    unfolding map_eq_append_conv by blast
  note x1 = x1'(1) x1'(2)[symmetric] x1'(3)[symmetric]
  note x2 = x2'(1) x2'(2)[symmetric] x2'(3)[symmetric]
  note x3 = x3'(1) x3'(2)[symmetric] x3'(3)[symmetric]
  note x4 = x4'(1) x4'(2)[symmetric] x4'(3)[symmetric]
  have e': "e' = e" by (rule e(3)[OF x4(3)])
  have s: "s = m1 @ a @ m2 @ b @ e @ post"
    by (simp only: R(1) x1(1) x2(1) x3(1) x4(1) e' append_assoc)
  have p: "prefix_ci p s" unfolding prefix_ci_iff using s x1(2) by blast
  from x1(2) have "length m1 = length p" by (metis length_map)
  with s have d1: "drop (length p) s = a @ m2 @ b @ e @ post" by simp
  have wa: "list_all isWhiteSpace a" using R(2) x2(2) ws_of_lower by blast
  have wb: "list_all isWhiteSpace b" using R(3) x4(2) ws_of_lower by blast
  from x3(2) f(1) have m2ne: "m2 \<noteq> []" by auto
  from x3(2) m2ne f(1) have "asciiLower (hd m2) = asciiLower (hd f)"
    by (cases m2; cases f) auto
  with f(2) have "\<not> isWhiteSpace (asciiLower (hd m2))" by simp
  then have "\<not> isWhiteSpace (hd m2)" by (rule lower_not_ws)
  with m2ne have h1: "(m2 @ b @ e @ post) \<noteq> []" "\<not> isWhiteSpace (hd (m2 @ b @ e @ post))"
    by auto
  have r: "dropWhile isWhiteSpace (drop (length p) s) = m2 @ b @ e @ post"
    unfolding d1 by (rule dropWhile_ws_skip[OF wa h1])
  have q: "prefix_ci f (m2 @ b @ e @ post)" unfolding prefix_ci_iff using x3(2) by blast
  from x3(2) have "length m2 = length f" by (metis length_map)
  then have d2: "drop (length f) (m2 @ b @ e @ post) = b @ e @ post" by simp
  from e(1,2) have h2: "(e @ post) \<noteq> []" "\<not> isWhiteSpace (hd (e @ post))" by auto
  have "dropWhile isWhiteSpace (b @ e @ post) = e @ post"
    by (rule dropWhile_ws_skip[OF wb h2])
  with p q r d2 show ?L by simp
qed

lemma usepackage_fontspec_at_iff:
  "usepackage_fontspec_at s =
   (\<exists>mid post. s = mid @ post \<and>
      (\<exists>w1 w2. list_all isWhiteSpace w1 \<and> list_all isWhiteSpace w2 \<and>
         map asciiLower mid = backslash # ''usepackage{'' @ w1 @ ''fontspec'' @ w2 @ ''}''))"
proof -
  have l1: "length (backslash # ''usepackage{'') = 12" and l2: "length ''fontspec'' = 8"
    by simp_all
  have p: "map asciiLower (backslash # ''usepackage{'') = backslash # ''usepackage{''"
    and f: "map asciiLower ''fontspec'' = ''fontspec''"
    and e: "map asciiLower ''}'' = ''}''"
    by (simp_all add: asciiLower_def backslash_def)
  have f1: "''fontspec'' \<noteq> []" and f2: "\<not> isWhiteSpace (asciiLower (hd ''fontspec''))"
    and e1: "''}'' \<noteq> []" and e2: "\<not> isWhiteSpace (hd ''}'')"
    by (simp_all add: asciiLower_def isWhiteSpace_def)
  have e3: "\<And>x. map asciiLower x = ''}'' \<Longrightarrow> x = ''}''"
  proof -
    fix x assume "map asciiLower x = ''}''"
    then obtain c where "x = [c]" "asciiLower c = CHR ''}''" by auto
    then show "x = ''}''" using lower_brace by simp
  qed
  have "usepackage_fontspec_at s =
     (prefix_ci (backslash # ''usepackage{'') s \<and>
      prefix_ci ''fontspec'' (dropWhile isWhiteSpace (drop (length (backslash # ''usepackage{'')) s)) \<and>
      prefix ''}'' (dropWhile isWhiteSpace
         (drop (length ''fontspec'') (dropWhile isWhiteSpace (drop (length (backslash # ''usepackage{'')) s)))))"
    unfolding l1 l2 usepackage_fontspec_at_def Let_def ..
  also have "\<dots> = (\<exists>mid post. s = mid @ post \<and>
      (\<exists>w1 w2. list_all isWhiteSpace w1 \<and> list_all isWhiteSpace w2 \<and>
         map asciiLower mid = map asciiLower (backslash # ''usepackage{'') @ w1 @
           map asciiLower ''fontspec'' @ w2 @ ''}''))"
    by (rule fenced_match_iff[OF f1 f2 e1 e2 e3 e])
  finally show ?thesis unfolding p f by simp
qed

lemma re_test_disj: "re_test (\<lambda>s. A s \<or> B s) tex = (re_test A tex \<or> re_test B tex)"
  by (induction tex) auto

lemma occurs_split:
  "(\<exists>pre post. tex = pre @ post \<and> (\<exists>mid post'. post = mid @ post' \<and> P mid post')) =
   (\<exists>pre mid post. tex = pre @ mid @ post \<and> P mid post)"
proof
  assume "\<exists>pre post. tex = pre @ post \<and> (\<exists>mid post'. post = mid @ post' \<and> P mid post')"
  then obtain pre post mid post' where "tex = pre @ post" "post = mid @ post'" "P mid post'"
    by blast
  then have "tex = pre @ mid @ post' \<and> P mid post'" by simp
  then show "\<exists>pre mid post. tex = pre @ mid @ post \<and> P mid post" by blast
next
  assume "\<exists>pre mid post. tex = pre @ mid @ post \<and> P mid post"
  then obtain pre mid post where "tex = pre @ mid @ post" "P mid post" by blast
  then have "tex = pre @ (mid @ post) \<and> (\<exists>m p'. mid @ post = m @ p' \<and> P m p')" by blast
  then show "\<exists>pre post. tex = pre @ post \<and> (\<exists>mid post'. post = mid @ post' \<and> P mid post')"
    by blast
qed

lemma re_test_usepackage: "re_test usepackage_fontspec_at tex = occurs_usepackage_fontspec tex"
  unfolding re_test_iff usepackage_fontspec_at_iff occurs_usepackage_fontspec_def
  by (rule occurs_split)

lemma re_test_directlua: "re_test directlua_at tex = occurs_as_word (backslash # ''directlua'') tex"
  unfolding re_test_iff directlua_at_iff occurs_as_word_def
  by (rule occurs_split)

lemma re_test_setmainfont:
  "re_test setmainfont_at tex = occurs_as_word (backslash # ''setmainfont'') tex"
  unfolding re_test_iff setmainfont_at_iff occurs_as_word_def
  by (rule occurs_split)

lemma re_test_ci: "re_test (prefix_ci w) tex = occurs_ci w tex"
  unfolding re_test_iff prefix_ci_iff occurs_ci_def
  by (rule occurs_split)

lemma re_test_font:
  "re_test font_directive_at tex =
   (occurs_usepackage_fontspec tex \<or> occurs_as_word (backslash # ''setmainfont'') tex \<or>
    occurs_ci ''polyglossia'' tex \<or> occurs_ci ''xeCJK'' tex)"
proof -
  have fd: "font_directive_at =
     (\<lambda>s. usepackage_fontspec_at s \<or> (setmainfont_at s \<or> (prefix_ci ''polyglossia'' s \<or>
          prefix_ci ''xeCJK'' s)))"
    by (rule ext) (simp add: font_directive_at_def)
  show ?thesis
    unfolding fd re_test_disj re_test_usepackage re_test_setmainfont re_test_ci ..
qed

subsection \<open>C6: the engine inference\<close>

text \<open>
  Claim C6 as stated fails in both directions. The source \<open>\directluax\<close> contains
  \<open>\directlua\<close> and the plain engine is inferred, because a word character follows;
  the source \<open>\DIRECTLUA{}\<close> does not contain \<open>\directlua\<close> (nor any of the font
  directives) and the script-capable engine is inferred, because the letter case is
  ignored.
\<close>

theorem directlua_substring_counterexample:
  "sublist (backslash # ''directlua'') lua_longer \<and> inferEngine lua_longer = Pdflatex \<and>
   \<not> sublist (backslash # ''directlua'') lua_upper \<and> inferEngine lua_upper = Lualatex"
  by (simp add: lua_longer_def lua_upper_def sublist_code backslash_def inferEngine_def
        directlua_at_def font_directive_at_def usepackage_fontspec_at_def setmainfont_at_def
        prefix_ci_def asciiLower_def word_char_next_def isWordChar_def isWhiteSpace_def
        char_is_char_of char_of_is_char)

text \<open>
  Claim C6, amended. The inference is a function of the source alone, in this order:
  when \<open>\directlua\<close> occurs in any letter case with no letter, digit or underscore
  after it, the script-capable engine; otherwise when \<open>\usepackage{fontspec}\<close> (white
  space allowed inside the braces), \<open>\setmainfont\<close> with no letter, digit or underscore
  after it, \<open>polyglossia\<close> or \<open>xeCJK\<close> occurs in any letter case, the unicode engine;
  otherwise the plain engine.
\<close>

theorem inferEngine_by_occurrence:
  "inferEngine tex =
     (if occurs_as_word (backslash # ''directlua'') tex then Lualatex
      else if occurs_usepackage_fontspec tex \<or> occurs_as_word (backslash # ''setmainfont'') tex \<or>
              occurs_ci ''polyglossia'' tex \<or> occurs_ci ''xeCJK'' tex then Xelatex
      else Pdflatex)"
  unfolding inferEngine_def re_test_directlua re_test_font ..

theorem inferEngine_by_occurrence_witness: "inferEngine arial = Xelatex"
proof -
  have a: "\<not> occurs_as_word (backslash # ''directlua'') arial"
    unfolding re_test_directlua[symmetric]
    by (simp add: arial_def backslash_def directlua_at_def prefix_ci_def asciiLower_def)
  have b: "occurs_as_word (backslash # ''setmainfont'') arial"
    unfolding re_test_setmainfont[symmetric]
    by (simp add: arial_def backslash_def setmainfont_at_def prefix_ci_def asciiLower_def
          word_char_next_def isWordChar_def)
  from inferEngine_by_occurrence[of arial] a b show ?thesis by simp
qed

section \<open>Facts about the compile routes\<close>

lemmas fs_defs = is_dir_def fs_remove_def mkdir_def writeFile_def readFile_def copyFile_def
  rm_rf_def path_join_def basename_def extname_def path_string_def
  exec_tar_def cleanup_def

lemma article_has_documentclass: "has_documentclass article"
  by (simp add: has_documentclass_def article_def)

lemma article_truthy: "truthy (Some article)" "text_or_empty (Some article) = article"
  by (simp_all add: truthy_def text_or_empty_def article_def)

lemma article_engine: "inferEngine article = Pdflatex"
  by (simp add: inferEngine_def directlua_at_def font_directive_at_def
        usepackage_fontspec_at_def setmainfont_at_def prefix_ci_def asciiLower_def
        article_def backslash_def)

lemma article_engines: "trial_engines body_article article = [Pdflatex, Xelatex, Lualatex]"
  by (simp add: trial_engines_def body_article_def article_engine)

lemma down_direct:
  "direct_loop env_service_down [] [Pdflatex, Xelatex, Lualatex] =
     Inr [Attempt ''pdflatex'' None ''fetch failed'', Attempt ''pdflatex'' None ''fetch failed'',
          Attempt ''xelatex'' None ''fetch failed'', Attempt ''xelatex'' None ''fetch failed'',
          Attempt ''lualatex'' None ''fetch failed'', Attempt ''lualatex'' None ''fetch failed'']"
  by (simp add: env_service_down_def direct_attempt_def)






lemma signature_success: "pdf_signature st buf \<Longrightarrow> pdf_success st ct buf"
  by (simp add: pdf_signature_def pdf_success_def isPdfHeader_def)

lemma direct_attempt_success:
  "pdf_success st ct buf \<Longrightarrow> direct_attempt env e (FetchResponse st ct buf) tried = Inl (Pdf buf)"
  by (simp add: direct_attempt_def)

lemma four_direct:
  "direct_loop (env_answering plain_four_bytes) [] [Pdflatex, Xelatex, Lualatex] =
     Inr [Attempt ''pdflatex'' (Some 200) ''%PDF'', Attempt ''pdflatex'' (Some 200) ''%PDF'',
          Attempt ''xelatex'' (Some 200) ''%PDF'', Attempt ''xelatex'' (Some 200) ''%PDF'',
          Attempt ''lualatex'' (Some 200) ''%PDF'', Attempt ''lualatex'' (Some 200) ''%PDF'']"
  by (simp add: env_answering_def plain_four_bytes_def direct_attempt_def pdf_success_def
        isPdfHeader_def isPdfType_def prefix_ci_def asciiLower_def safeText_def resp_ok_def)

lemma blob_expected_text: "error_text blob_expected = blob_expected"
  by (simp add: error_text_def blob_expected_def)

lemma four_fallback:
  "fst (archive_fallback (env_answering plain_four_bytes) base_disk article tried) =
     failed_across (tried @ [Attempt ''tar-bz2'' None blob_expected])"
  by (simp add: archive_fallback_def env_answering_def base_disk_def
        toy_tar_def fs_defs Let_def blob_expected_text)

lemma down_fallback_full:
  "archive_fallback env_service_down base_disk article tried =
     (failed_across (tried @ [Attempt ''tar-bz2'' None blob_expected]),
      base_disk @ [([''tmp'', ''latex-Ab12''], Dir),
       ([''tmp'', ''latex-Ab12'', ''main.tex''], File article),
       ([''tmp'', ''latex-Ab12'', ''archive.tar.bz2''], File ''BZh|main.tex'')])"
  by (simp add: archive_fallback_def env_service_down_def base_disk_def toy_tar_def fs_defs Let_def
        blob_expected_text)

lemma cv_validated:
  assumes "MAX_UPLOAD_BYTES_env env = None"
    and "up_form req = Inr (Some (FormFile ''cv.tex'' article))"
    and "up_content_type req = Some ''multipart/form-data; boundary=x''"
  shows "validate_upload env req = Inr (FormFile ''cv.tex'' article)"
  using assms
  by (simp add: validate_upload_def text_or_empty_def name_or_upload_def allowed_def basename_def
        asciiLower_def MAX_UPLOAD_BYTES_def article_def suffix_to_prefix)

lemma cv_counted:
  assumes "up_forwarded_for req = Some ''10.0.0.7''" and "now env = 1000"
  shows "rate_limit RATE_LIMIT_WINDOW_MS RATE_LIMIT_MAX Map.empty
           (client_ip (up_forwarded_for req)) (now env) = ([''10.0.0.7'' \<mapsto> (1, 61000)], False)"
  using assms
  by (simp add: rate_limit_def RATE_LIMIT_MAX_def RATE_LIMIT_WINDOW_MS_def client_ip_def
        trim_def isWhiteSpace_def)

lemma cv_packed:
  assumes "tar_bz2 env = toy_tar" and "mkdtemp env = [''tmp'', ''latex-Ab12'']"
  shows "prepare_archive env base_disk (FormFile ''cv.tex'' article) =
     Inr ([''tmp'', ''latex-Ab12'', ''archive.tar.bz2''], Some [''tmp'', ''latex-Ab12'', ''work''],
          prepared_disk)"
  using assms
  by (simp add: prepare_archive_def prepared_disk_def base_disk_def toy_tar_def fs_defs
        name_or_upload_def asciiLower_def Let_def suffix_to_prefix)

lemma archive_only_cv:
  "archive_only env prepared_disk [''tmp'', ''latex-Ab12'', ''archive.tar.bz2''] =
     (ArchiveFile ''application/x-bzip2'' ''archive.tar.bz2'' ''BZh|main.tex'', prepared_disk)"
  by (simp add: archive_only_def prepared_disk_def base_disk_def readFile_def path_string_def
        extname_def basename_def asciiLower_def Let_def header_value_ok_def
        content_disposition_def)

lemma upload_cv_fields:
  "up_forwarded_for upload_cv = Some ''10.0.0.7''"
  "up_content_type upload_cv = Some ''multipart/form-data; boundary=x''"
  "up_form upload_cv = Inr (Some (FormFile ''cv.tex'' article))"
  "up_onlyArchive upload_cv = None"
  "up_forwarded_for upload_cv_archive_only = Some ''10.0.0.7''"
  "up_content_type upload_cv_archive_only = Some ''multipart/form-data; boundary=x''"
  "up_form upload_cv_archive_only = Inr (Some (FormFile ''cv.tex'' article))"
  "up_onlyArchive upload_cv_archive_only = Some ''1''"
  by (simp_all add: upload_cv_def upload_cv_archive_only_def)

lemma down_fields:
  "MAX_UPLOAD_BYTES_env env_service_down = None" "now env_service_down = 1000"
  "tar_bz2 env_service_down = toy_tar" "mkdtemp env_service_down = [''tmp'', ''latex-Ab12'']"
  by (simp_all add: env_service_down_def)

lemma archive_only_run:
  "upload_POST env_service_down Map.empty base_disk upload_cv_archive_only =
     \<lparr>up_reply = ArchiveFile ''application/x-bzip2'' ''archive.tar.bz2'' ''BZh|main.tex'',
      up_rates = [''10.0.0.7'' \<mapsto> (1, 61000)], up_disk = prepared_disk, up_calls = []\<rparr>"
  by (simp add: upload_POST_def
        cv_counted[OF upload_cv_fields(5) down_fields(2)]
        cv_validated[OF down_fields(1) upload_cv_fields(7) upload_cv_fields(6)]
        cv_packed[OF down_fields(3) down_fields(4)] upload_cv_fields(8) archive_only_cv)

lemma sty_fields:
  "MAX_UPLOAD_BYTES_env env_missing_sty = None" "now env_missing_sty = 1000"
  "tar_bz2 env_missing_sty = toy_tar" "mkdtemp env_missing_sty = [''tmp'', ''latex-Ab12'']"
  "utf8_decode env_missing_sty = (\<lambda>b. b)"
  "data_post env_missing_sty = (\<lambda>n name bytes. FetchResponse 500 (Some ''text/plain'') sty_log)"
  "ctan_get env_missing_sty ''foo'' = FetchResponse 200 None ''% foo''"
  by (simp_all add: env_missing_sty_def)

lemma missing_in_log: "missing_styles sty_log = [''foo'']"
  by (simp add: sty_log_def sty_match_at_def suffix_to_prefix Let_def)

lemma sty_log_no_pdf: "\<not> pdf_success 500 (Some ''text/plain'') sty_log"
  by (simp add: pdf_success_def resp_ok_def)

lemma foo_fetched:
  "fetch_missing env_missing_sty prepared_disk [''tmp'', ''latex-Ab12'', ''work''] [''foo''] =
     (fetched_disk, True, [MirrorGet ''foo''])"
  by (simp add: sty_fields(7) resp_ok_def fetched_disk_def prepared_disk_def base_disk_def
        writeFile_def is_dir_def fs_remove_def path_join_def)

lemma foo_retry:
  "retry_upload env_missing_sty fetched_disk [''tmp'', ''latex-Ab12'', ''work''] sty_log =
     (Inr (sty_log,
           fetched_disk @ [([''tmp'', ''latex-Ab12'', ''archive_retry.tar.bz2''], File ''BZh|main.tex'')]),
      [DataPost ''archive_retry.tar.bz2'' ''BZh|main.tex''])"
  by (simp add: retry_upload_def sty_fields(3,4,6) sty_log_no_pdf toy_tar_def exec_tar_def
        fetched_disk_def prepared_disk_def base_disk_def readFile_def writeFile_def is_dir_def
        fs_remove_def Let_def)

lemma foo_upload:
  "upload_archive env_missing_sty prepared_disk [''tmp'', ''latex-Ab12'', ''archive.tar.bz2'']
     (Some [''tmp'', ''latex-Ab12'', ''work'']) =
   (PlainText 500 sty_log, base_disk,
    [DataPost ''archive.tar.bz2'' ''BZh|main.tex'', MirrorGet ''foo'',
     DataPost ''archive_retry.tar.bz2'' ''BZh|main.tex''])"
proof -
  have r: "readFile prepared_disk [''tmp'', ''latex-Ab12'', ''archive.tar.bz2''] = Inr ''BZh|main.tex''"
    by (simp add: prepared_disk_def base_disk_def readFile_def)
  have b: "basename (path_string [''tmp'', ''latex-Ab12'', ''archive.tar.bz2'']) = ''archive.tar.bz2''"
    by (simp add: basename_def path_string_def)
  have c: "cleanup env_missing_sty
             (fetched_disk @ [([''tmp'', ''latex-Ab12'', ''archive_retry.tar.bz2''], File ''BZh|main.tex'')])
           = base_disk"
    by (simp add: cleanup_def rm_rf_def sty_fields(4) fetched_disk_def prepared_disk_def base_disk_def)
  have ok: "\<not> resp_ok 500" "\<not> response_throws 500"
    by (simp_all add: resp_ok_def response_throws_def)
  show ?thesis
    by (simp add: upload_archive_def r b sty_fields(5,6) ok missing_in_log foo_fetched foo_retry
          c sty_log_no_pdf
        del: fetch_missing.simps)
qed

subsection \<open>C1: the temporary files\<close>

text \<open>
  Claim C1 does not hold of the code. The text route removes its temporary directory
  only on the path that reads a response of the archive upload, and that path is never
  reached: once the direct attempts have failed (here the service cannot be reached),
  the archive is packed, the construction of the form throws, and the handler answers
  502 and leaves the directory with \<open>main.tex\<close> and the archive. The upload route answers a request in
  archive-only mode with the archive and status 200 without calling \<open>cleanup\<close>: the
  directory, the stored upload, the working directory and the archive stay on the disk.
\<close>

theorem temporary_files_left_behind:
  "compile_POST env_service_down base_disk (Inr body_article) =
     (failed_across
        [Attempt ''pdflatex'' None ''fetch failed'', Attempt ''pdflatex'' None ''fetch failed'',
         Attempt ''xelatex'' None ''fetch failed'', Attempt ''xelatex'' None ''fetch failed'',
         Attempt ''lualatex'' None ''fetch failed'', Attempt ''lualatex'' None ''fetch failed'',
         Attempt ''tar-bz2'' None blob_expected],
      base_disk @
      [([''tmp'', ''latex-Ab12''], Dir),
       ([''tmp'', ''latex-Ab12'', ''main.tex''], File article),
       ([''tmp'', ''latex-Ab12'', ''archive.tar.bz2''], File ''BZh|main.tex'')]) \<and>
   up_reply (upload_POST env_service_down Map.empty base_disk upload_cv_archive_only) =
     ArchiveFile ''application/x-bzip2'' ''archive.tar.bz2'' ''BZh|main.tex'' \<and>
   up_disk (upload_POST env_service_down Map.empty base_disk upload_cv_archive_only) =
     prepared_disk"
  by (simp add: compile_POST_def body_article_def article_truthy article_has_documentclass
        article_engines[unfolded body_article_def] down_direct down_fallback_full
        archive_only_run
      del: direct_loop.simps)

text \<open>The disk is not what it was before either request.\<close>

theorem temporary_files_left_behind_witness:
  "snd (compile_POST env_service_down base_disk (Inr body_article)) \<noteq> base_disk \<and>
   up_disk (upload_POST env_service_down Map.empty base_disk upload_cv_archive_only) \<noteq> base_disk"
  using temporary_files_left_behind by (simp add: prepared_disk_def)

subsection \<open>C3: the PDF signature\<close>

lemma direct_attempt_failure:
  "\<not> fetch_success r \<Longrightarrow> \<exists>tried'. direct_attempt env e r tried = Inr tried'"
  by (cases r) (simp_all add: direct_attempt_def)

lemma direct_loop_append:
  "direct_loop env tried (xs @ ys) =
     (case direct_loop env tried xs of Inl r \<Rightarrow> Inl r | Inr t \<Rightarrow> direct_loop env t ys)"
  by (induction xs arbitrary: tried) (simp_all split: sum.splits)

lemma direct_loop_failures:
  "list_all (\<lambda>x. \<not> fetch_success (compile_post env x) \<and> \<not> fetch_success (compile_get env x)) es
   \<Longrightarrow> \<exists>tried'. direct_loop env tried es = Inr tried'"
proof (induction es arbitrary: tried)
  case Nil
  then show ?case by simp
next
  case (Cons x xs)
  from Cons.prems have f: "\<not> fetch_success (compile_post env x)" "\<not> fetch_success (compile_get env x)"
    and r: "list_all (\<lambda>x. \<not> fetch_success (compile_post env x) \<and> \<not> fetch_success (compile_get env x)) xs"
    by simp_all
  from direct_attempt_failure[OF f(1)] obtain t1 where
    t1: "direct_attempt env x (compile_post env x) tried = Inr t1" by blast
  from direct_attempt_failure[OF f(2)] obtain t2 where
    t2: "direct_attempt env x (compile_get env x) t1 = Inr t2" by blast
  from Cons.IH[OF r, of t2] t1 t2 show ?case by simp
qed

lemma fallback_fails: "\<exists>tried'. fst (archive_fallback env fs t tried) = failed_across tried'"
  by (auto simp: archive_fallback_def Let_def split: sum.splits)

lemma xelatex_get_fields:
  "compile_post env_xelatex_get = (\<lambda>e. FetchThrows ''fetch failed'')"
  "compile_get env_xelatex_get Pdflatex = FetchThrows ''fetch failed''"
  "compile_get env_xelatex_get Xelatex = FetchResponse 200 (Some ''text/plain'') ''%PDF-1.4''"
  by (simp_all add: env_xelatex_get_def env_service_down_def plain_pdf_def)

lemma retry_pdf_fields:
  "mkdtemp env_retry_pdf = [''tmp'', ''latex-Ab12'']" "utf8_decode env_retry_pdf = (\<lambda>b. b)"
  "tar_bz2 env_retry_pdf = toy_tar" "ctan_get env_retry_pdf ''foo'' = FetchResponse 200 None ''% foo''"
  "data_post env_retry_pdf 0 = (\<lambda>name bytes. FetchResponse 500 (Some ''text/plain'') sty_log)"
  by (simp_all add: env_retry_pdf_def env_missing_sty_def plain_pdf_def)

text \<open>
  Claim C3 as stated fails. A response with status 200, content type \<open>text/plain\<close> and
  the four-byte body \<open>%PDF\<close> is not a PDF for the handler, which asks for more than
  four bytes: every direct attempt is recorded as failed and the reply is 502. A
  response with status 500 whose body starts with \<open>%PDF\<close> is not a success either.
\<close>

theorem four_byte_body_counterexample:
  "take 4 ''%PDF'' = ''%PDF'' \<and>
   fst (compile_POST (env_answering plain_four_bytes) base_disk (Inr body_article)) =
     failed_across
       [Attempt ''pdflatex'' (Some 200) ''%PDF'', Attempt ''pdflatex'' (Some 200) ''%PDF'',
        Attempt ''xelatex'' (Some 200) ''%PDF'', Attempt ''xelatex'' (Some 200) ''%PDF'',
        Attempt ''lualatex'' (Some 200) ''%PDF'', Attempt ''lualatex'' (Some 200) ''%PDF'',
        Attempt ''tar-bz2'' None blob_expected] \<and>
   take 4 ''%PDF-1.4'' = ''%PDF'' \<and> \<not> pdf_success 500 (Some ''text/plain'') ''%PDF-1.4''"
  by (simp add: compile_POST_def body_article_def article_truthy article_has_documentclass
        article_engines[unfolded body_article_def] four_direct four_fallback
        pdf_success_def resp_ok_def
      del: direct_loop.simps)

text \<open>
  Claim C3, amended. A response with an ok status whose body has more than four bytes
  and starts with \<open>%PDF\<close> is classified as a PDF whatever its content type, and at
  every place where a handler reads a response of the compilation service the reply is
  then the body of that response. In the text route these are the direct POST and the
  direct GET of each engine of the trial order, read when no earlier direct response
  was taken for a PDF; nothing is written to the disk. The archive upload of the text
  route is never answered: when no direct response is taken for a PDF the reply is the
  failure across engines. In the upload route these are the answer to the first upload
  of the archive and, in the recovery of a missing package, the answer to the upload of
  the retry; the temporary directory is removed and no further call is made.
\<close>

theorem pdf_signature_classified:
  "(pdf_signature st buf \<longrightarrow> pdf_success st ct buf) \<and>
   (truthy (body_tex b) \<and> has_documentclass (text_or_empty (body_tex b)) \<and>
    trial_engines b (text_or_empty (body_tex b)) = pre @ e # post \<and>
    list_all (\<lambda>x. \<not> fetch_success (compile_post env x) \<and> \<not> fetch_success (compile_get env x))
      pre \<and>
    compile_post env e = FetchResponse st ct buf \<and> pdf_signature st buf \<longrightarrow>
      compile_POST env fs (Inr b) = (Pdf buf, fs)) \<and>
   (truthy (body_tex b) \<and> has_documentclass (text_or_empty (body_tex b)) \<and>
    trial_engines b (text_or_empty (body_tex b)) = pre @ e # post \<and>
    list_all (\<lambda>x. \<not> fetch_success (compile_post env x) \<and> \<not> fetch_success (compile_get env x))
      pre \<and>
    \<not> fetch_success (compile_post env e) \<and>
    compile_get env e = FetchResponse st ct buf \<and> pdf_signature st buf \<longrightarrow>
      compile_POST env fs (Inr b) = (Pdf buf, fs)) \<and>
   (truthy (body_tex b) \<and> has_documentclass (text_or_empty (body_tex b)) \<and>
    list_all (\<lambda>x. \<not> fetch_success (compile_post env x) \<and> \<not> fetch_success (compile_get env x))
      (trial_engines b (text_or_empty (body_tex b))) \<longrightarrow>
      (\<exists>tried. fst (compile_POST env fs (Inr b)) = failed_across tried)) \<and>
   (readFile fs ap = Inr fileBuf \<and>
    data_post env 0 (basename (path_string ap)) fileBuf = FetchResponse st ct buf \<and>
    pdf_signature st buf \<longrightarrow>
      upload_archive env fs ap wd =
        (Pdf buf, cleanup env fs, [DataPost (basename (path_string ap)) fileBuf])) \<and>
   (readFile fs ap = Inr fileBuf \<and>
    data_post env 0 (basename (path_string ap)) fileBuf = FetchResponse st1 ct1 buf1 \<and>
    \<not> resp_ok st1 \<and> missing_styles (utf8_decode env buf1) \<noteq> [] \<and>
    fetch_missing env fs workdir (first_occurrences [] (missing_styles (utf8_decode env buf1))) =
      (fs1, True, ev1) \<and>
    exec_tar env fs1 (mkdtemp env @ [''archive_retry.tar.bz2'']) workdir = Inr fs2 \<and>
    readFile fs2 (mkdtemp env @ [''archive_retry.tar.bz2'']) = Inr fileBuf2 \<and>
    data_post env 1 ''archive_retry.tar.bz2'' fileBuf2 = FetchResponse st ct buf \<and>
    pdf_signature st buf \<longrightarrow>
      upload_archive env fs ap (Some workdir) =
        (Pdf buf, cleanup env fs2,
         DataPost (basename (path_string ap)) fileBuf # ev1 @
         [DataPost ''archive_retry.tar.bz2'' fileBuf2]))"
proof -
  let ?quiet = "list_all (\<lambda>x. \<not> fetch_success (compile_post env x) \<and>
                               \<not> fetch_success (compile_get env x))"
  have A: "pdf_signature st buf \<longrightarrow> pdf_success st ct buf"
    by (simp add: signature_success)
  have B: "compile_POST env fs (Inr b) = (Pdf buf, fs)"
    if h: "truthy (body_tex b)" "has_documentclass (text_or_empty (body_tex b))"
      "trial_engines b (text_or_empty (body_tex b)) = pre @ e # post" "?quiet pre"
      "compile_post env e = FetchResponse st ct buf" "pdf_signature st buf"
  proof -
    from direct_loop_failures[OF h(4), of "[]"] obtain t where
      t: "direct_loop env [] pre = Inr t" by blast
    have "direct_attempt env e (compile_post env e) t = Inl (Pdf buf)"
      using h(5) direct_attempt_success[OF signature_success[OF h(6), of ct], of env e t] by simp
    then have "direct_loop env [] (pre @ e # post) = Inl (Pdf buf)"
      by (simp add: direct_loop_append t)
    with h(1,2,3) show ?thesis by (simp add: compile_POST_def)
  qed
  have C: "compile_POST env fs (Inr b) = (Pdf buf, fs)"
    if h: "truthy (body_tex b)" "has_documentclass (text_or_empty (body_tex b))"
      "trial_engines b (text_or_empty (body_tex b)) = pre @ e # post" "?quiet pre"
      "\<not> fetch_success (compile_post env e)"
      "compile_get env e = FetchResponse st ct buf" "pdf_signature st buf"
  proof -
    from direct_loop_failures[OF h(4), of "[]"] obtain t where
      t: "direct_loop env [] pre = Inr t" by blast
    from direct_attempt_failure[OF h(5)] obtain t1 where
      t1: "direct_attempt env e (compile_post env e) t = Inr t1" by blast
    have "direct_attempt env e (compile_get env e) t1 = Inl (Pdf buf)"
      using h(6) direct_attempt_success[OF signature_success[OF h(7), of ct], of env e t1] by simp
    with t1 have "direct_loop env [] (pre @ e # post) = Inl (Pdf buf)"
      by (simp add: direct_loop_append t)
    with h(1,2,3) show ?thesis by (simp add: compile_POST_def)
  qed
  have D: "\<exists>tried. fst (compile_POST env fs (Inr b)) = failed_across tried"
    if h: "truthy (body_tex b)" "has_documentclass (text_or_empty (body_tex b))"
      "?quiet (trial_engines b (text_or_empty (body_tex b)))"
  proof -
    from direct_loop_failures[OF h(3), of "[]"] obtain t where
      "direct_loop env [] (trial_engines b (text_or_empty (body_tex b))) = Inr t" by blast
    with h(1,2) fallback_fails[of env fs "text_or_empty (body_tex b)" t] show ?thesis
      by (simp add: compile_POST_def)
  qed
  have E: "upload_archive env fs ap wd =
        (Pdf buf, cleanup env fs, [DataPost (basename (path_string ap)) fileBuf])"
    if h: "readFile fs ap = Inr fileBuf"
      "data_post env 0 (basename (path_string ap)) fileBuf = FetchResponse st ct buf"
      "pdf_signature st buf"
  proof -
    from h(3) have ok: "resp_ok st" by (simp add: pdf_signature_def)
    from signature_success[OF h(3)] have s: "pdf_success st ct buf" .
    from h(1,2) ok s show ?thesis
      by (cases wd) (simp_all add: upload_archive_def Let_def)
  qed
  have F: "upload_archive env fs ap (Some workdir) =
        (Pdf buf, cleanup env fs2,
         DataPost (basename (path_string ap)) fileBuf # ev1 @
         [DataPost ''archive_retry.tar.bz2'' fileBuf2])"
    if h: "readFile fs ap = Inr fileBuf"
      "data_post env 0 (basename (path_string ap)) fileBuf = FetchResponse st1 ct1 buf1"
      "\<not> resp_ok st1" "missing_styles (utf8_decode env buf1) \<noteq> []"
      "fetch_missing env fs workdir (first_occurrences [] (missing_styles (utf8_decode env buf1))) =
         (fs1, True, ev1)"
      "exec_tar env fs1 (mkdtemp env @ [''archive_retry.tar.bz2'']) workdir = Inr fs2"
      "readFile fs2 (mkdtemp env @ [''archive_retry.tar.bz2'']) = Inr fileBuf2"
      "data_post env 1 ''archive_retry.tar.bz2'' fileBuf2 = FetchResponse st ct buf"
      "pdf_signature st buf"
  proof -
    from signature_success[OF h(9)] have s: "pdf_success st ct buf" .
    have r: "retry_upload env fs1 workdir buf1 =
               (Inl (Pdf buf, cleanup env fs2), [DataPost ''archive_retry.tar.bz2'' fileBuf2])"
      using h(6,7,8) s by (simp add: retry_upload_def Let_def)
    from h(1,2,3,4,5) r show ?thesis
      by (simp add: upload_archive_def Let_def del: fetch_missing.simps)
  qed
  from A B C D E F show ?thesis by blast
qed

theorem pdf_signature_classified_witness:
  "compile_POST env_xelatex_get base_disk (Inr body_article) = (Pdf ''%PDF-1.4'', base_disk) \<and>
   upload_archive env_retry_pdf prepared_disk [''tmp'', ''latex-Ab12'', ''archive.tar.bz2'']
     (Some [''tmp'', ''latex-Ab12'', ''work'']) =
   (Pdf ''%PDF-1.4'', base_disk,
    [DataPost ''archive.tar.bz2'' ''BZh|main.tex'', MirrorGet ''foo'',
     DataPost ''archive_retry.tar.bz2'' ''BZh|main.tex''])"
proof -
  let ?tar = "[''tmp'', ''latex-Ab12'', ''archive.tar.bz2'']"
  let ?wd = "[''tmp'', ''latex-Ab12'', ''work'']"
  let ?retry = "fetched_disk @ [([''tmp'', ''latex-Ab12'', ''archive_retry.tar.bz2''], File ''BZh|main.tex'')]"
  have a: "truthy (body_tex body_article)"
      "has_documentclass (text_or_empty (body_tex body_article))"
    by (simp_all add: body_article_def article_truthy article_has_documentclass)
  have t: "trial_engines body_article (text_or_empty (body_tex body_article)) =
             [Pdflatex] @ Xelatex # [Lualatex]"
    using article_engines by (simp add: body_article_def article_truthy)
  have q: "list_all (\<lambda>x. \<not> fetch_success (compile_post env_xelatex_get x) \<and>
                          \<not> fetch_success (compile_get env_xelatex_get x)) [Pdflatex]"
      "\<not> fetch_success (compile_post env_xelatex_get Xelatex)"
    by (simp_all add: xelatex_get_fields)
  have c: "pdf_signature 200 ''%PDF-1.4''"
    by (simp add: pdf_signature_def resp_ok_def)
  have one: "compile_POST env_xelatex_get base_disk (Inr body_article) = (Pdf ''%PDF-1.4'', base_disk)"
    using pdf_signature_classified[where b = body_article and env = env_xelatex_get
        and pre = "[Pdflatex]" and e = Xelatex and post = "[Lualatex]" and st = 200
        and ct = "Some ''text/plain''" and buf = "''%PDF-1.4''" and fs = base_disk]
      a t q c xelatex_get_fields(3)
    by blast
  have r: "readFile prepared_disk ?tar = Inr ''BZh|main.tex''"
    by (simp add: prepared_disk_def base_disk_def readFile_def)
  have b: "basename (path_string ?tar) = ''archive.tar.bz2''"
    by (simp add: basename_def path_string_def)
  have p: "data_post env_retry_pdf 0 (basename (path_string ?tar)) ''BZh|main.tex'' =
             FetchResponse 500 (Some ''text/plain'') sty_log"
    by (simp add: retry_pdf_fields)
  have ok: "\<not> resp_ok 500" by (simp add: resp_ok_def)
  have mi: "missing_styles (utf8_decode env_retry_pdf sty_log) \<noteq> []"
    by (simp add: retry_pdf_fields missing_in_log)
  have fm: "fetch_missing env_retry_pdf prepared_disk ?wd
              (first_occurrences [] (missing_styles (utf8_decode env_retry_pdf sty_log))) =
            (fetched_disk, True, [MirrorGet ''foo''])"
    by (simp add: retry_pdf_fields missing_in_log resp_ok_def fetched_disk_def prepared_disk_def
          base_disk_def writeFile_def is_dir_def fs_remove_def path_join_def)
  have ex: "exec_tar env_retry_pdf fetched_disk
              (mkdtemp env_retry_pdf @ [''archive_retry.tar.bz2'']) ?wd = Inr ?retry"
    by (simp add: retry_pdf_fields toy_tar_def exec_tar_def fetched_disk_def prepared_disk_def
          base_disk_def readFile_def writeFile_def is_dir_def fs_remove_def)
  have rd: "readFile ?retry (mkdtemp env_retry_pdf @ [''archive_retry.tar.bz2'']) = Inr ''BZh|main.tex''"
    by (simp add: retry_pdf_fields fetched_disk_def prepared_disk_def base_disk_def readFile_def)
  have p2: "data_post env_retry_pdf 1 ''archive_retry.tar.bz2'' ''BZh|main.tex'' =
              FetchResponse 200 (Some ''text/plain'') ''%PDF-1.4''"
    by (simp add: env_retry_pdf_def plain_pdf_def)
  have cl: "cleanup env_retry_pdf ?retry = base_disk"
    by (simp add: cleanup_def rm_rf_def retry_pdf_fields fetched_disk_def prepared_disk_def base_disk_def)
  have two: "upload_archive env_retry_pdf prepared_disk ?tar (Some ?wd) =
      (Pdf ''%PDF-1.4'', cleanup env_retry_pdf ?retry,
       DataPost (basename (path_string ?tar)) ''BZh|main.tex'' # [MirrorGet ''foo''] @
       [DataPost ''archive_retry.tar.bz2'' ''BZh|main.tex''])"
    using pdf_signature_classified[where env = env_retry_pdf and fs = prepared_disk and ap = "?tar"
        and fileBuf = "''BZh|main.tex''" and ?st1.0 = 500 and ?ct1.0 = "Some ''text/plain''"
        and ?buf1.0 = sty_log and workdir = "?wd" and ?fs1.0 = fetched_disk
        and ?ev1.0 = "[MirrorGet ''foo'']" and ?fs2.0 = "?retry" and ?fileBuf2.0 = "''BZh|main.tex''"
        and st = 200 and ct = "Some ''text/plain''" and buf = "''%PDF-1.4''"]
      r p ok mi fm ex rd p2 c
    by blast
  from one two show ?thesis by (simp add: cl b)
qed

subsection \<open>C7: the recovery of a missing package\<close>

text \<open>
  Claim C7 does not hold of the code. The first upload fails with the log of a missing
  \<open>foo.sty\<close>, the mirror serves \<open>foo\<close> and the file is written into the working
  directory, and one retry is made; but the archive of the retry is packed from
  \<open>main.tex\<close> alone, so it is the archive of the first upload again and \<open>foo.sty\<close>
  is not in it.
\<close>

theorem retry_archive_omits_fetched_style:
  "upload_POST env_missing_sty Map.empty base_disk upload_cv =
     \<lparr>up_reply = PlainText 500 sty_log, up_rates = [''10.0.0.7'' \<mapsto> (1, 61000)],
      up_disk = base_disk,
      up_calls = [DataPost ''archive.tar.bz2'' ''BZh|main.tex'', MirrorGet ''foo'',
                  DataPost ''archive_retry.tar.bz2'' ''BZh|main.tex'']\<rparr> \<and>
   fst (fetch_missing env_missing_sty prepared_disk [''tmp'', ''latex-Ab12'', ''work''] [''foo'']) =
     prepared_disk @ [([''tmp'', ''latex-Ab12'', ''work'', ''foo.sty''], File ''% foo'')] \<and>
   toy_tar [(''main.tex'', article), (''foo.sty'', ''% foo'')] = Some ''BZh|main.tex|foo.sty''"
  by (simp add: upload_POST_def
        cv_counted[OF upload_cv_fields(1) sty_fields(2)]
        cv_validated[OF sty_fields(1) upload_cv_fields(3) upload_cv_fields(2)]
        cv_packed[OF sty_fields(3) sty_fields(4)] upload_cv_fields(4) foo_upload foo_fetched
        fetched_disk_def toy_tar_def
      del: fetch_missing.simps)

text \<open>The two uploads carry the same bytes.\<close>

theorem retry_archive_omits_fetched_style_witness:
  "up_calls (upload_POST env_missing_sty Map.empty base_disk upload_cv) =
     [DataPost ''archive.tar.bz2'' ''BZh|main.tex'', MirrorGet ''foo'',
      DataPost ''archive_retry.tar.bz2'' ''BZh|main.tex'']"
  using retry_archive_omits_fetched_style by simp

subsection \<open>C10: the archive-only mode\<close>





end
